theory Spec2Isabelle
  imports Main "HOL-Library.Word"
begin

section \<open>Bytes, C strings and observable events\<close>

text \<open>
  The two programs (the server \<^verbatim>\<open>daytimed.c\<close> and the client \<^verbatim>\<open>daytime.c\<close>) are
  sequences of libc and socket calls. A byte is a \<open>char\<close>, a \<^verbatim>\<open>char[]\<close> array is a
  \<open>char list\<close> of the array's size, and the C string held in an array is the run of bytes
  before its first NUL byte. What a call returns is decided by the operating system: it is
  an input of the model (the records named \<open>..._world\<close>). What a call does to the outside
  is an \<open>event\<close>; every function returns the list of events it produced, in order.
\<close>

abbreviation NUL :: char where "NUL \<equiv> CHR 0x00"
abbreviation CR :: char where "CR \<equiv> CHR 0x0D"
abbreviation LF :: char where "LF \<equiv> CHR 0x0A"
abbreviation TAB :: char where "TAB \<equiv> CHR 0x09"

text \<open>The C string in an array: the bytes before the first NUL (what \<^verbatim>\<open>%s\<close> prints).\<close>

definition cstr :: "char list \<Rightarrow> string" where
  "cstr buf = takeWhile (\<lambda>c. c \<noteq> NUL) buf"

text \<open>
  \<^verbatim>\<open>strlen\<close>: the length of the C string; reading an array that holds no NUL runs past
  its end, which is undefined (\<open>None\<close>).
\<close>

definition strlen :: "char list \<Rightarrow> nat option" where
  "strlen buf = (if NUL \<in> set buf then Some (length (cstr buf)) else None)"

text \<open>Storing bytes at the start of an array (what a library call does with its output buffer).\<close>

definition store :: "char list \<Rightarrow> char list \<Rightarrow> char list" where
  "store buf bs = bs @ drop (length bs) buf"

datatype priority = LOG_ERR | LOG_DEBUG

datatype event =
    Stdout string                 \<comment> \<open>\<^verbatim>\<open>printf\<close>\<close>
  | Stderr string                 \<comment> \<open>\<^verbatim>\<open>fprintf(stderr, ...)\<close>\<close>
  | Syslog priority string        \<comment> \<open>\<^verbatim>\<open>syslog\<close>\<close>
  | Openlog string
  | Closelog
  | Setsockopt int string         \<comment> \<open>descriptor, option name\<close>
  | Listen int int                \<comment> \<open>descriptor, backlog\<close>
  | Sendmsg int "char list" nat   \<comment> \<open>\<^verbatim>\<open>sctp_sendmsg\<close>: descriptor, payload, stream\<close>
  | Recvmsg int nat               \<comment> \<open>\<^verbatim>\<open>sctp_recvmsg\<close>: descriptor, bytes asked for\<close>
  | Freeaddrinfo
  | Close int

text \<open>The arrays \<^verbatim>\<open>char message[128]\<close> of both programs.\<close>

definition sizeof_message :: nat where "sizeof_message = 128"

text \<open>
  \<^verbatim>\<open>EXIT_SUCCESS\<close> and \<^verbatim>\<open>EXIT_FAILURE\<close> come from \<^verbatim>\<open><stdlib.h>\<close>: 0 and 1 on the systems
  the programs are built for.
\<close>

definition EXIT_SUCCESS :: int where "EXIT_SUCCESS = 0"
definition EXIT_FAILURE :: int where "EXIT_FAILURE = 1"

section \<open>Decimal output and \<^verbatim>\<open>strftime\<close>\<close>

definition digit :: "nat \<Rightarrow> char" where
  "digit d = ''0123456789'' ! d"

fun dec_nat :: "nat \<Rightarrow> string" where
  "dec_nat n = (if n < 10 then [digit n] else dec_nat (n div 10) @ [digit (n mod 10)])"

declare dec_nat.simps [simp del]

text \<open>\<^verbatim>\<open>%d\<close>: a decimal number, with a minus sign when negative.\<close>

definition dec_int :: "int \<Rightarrow> string" where
  "dec_int i = (if i < 0 then CHR ''-'' # dec_nat (nat (- i)) else dec_nat (nat i))"

text \<open>A decimal number of at least two digits, padded with a zero (\<^verbatim>\<open>%02d\<close>).\<close>

definition dec2 :: "int \<Rightarrow> string" where
  "dec2 i = (if 0 \<le> i \<and> i < 10 then CHR ''0'' # dec_int i else dec_int i)"

text \<open>\<^verbatim>\<open>struct tm\<close>: the fields are C \<^verbatim>\<open>int\<close>s; only the ones the format reads are kept.\<close>

record tm =
  tm_sec :: "32 word"
  tm_min :: "32 word"
  tm_hour :: "32 word"
  tm_mday :: "32 word"
  tm_mon :: "32 word"     \<comment> \<open>months since January\<close>
  tm_year :: "32 word"    \<comment> \<open>years since 1900\<close>

text \<open>
  \<^verbatim>\<open>strftime\<close> belongs to the C library, not to this repository. It is modelled from
  ISO C (7.27.3.5) for the conversions the server's pattern uses: \<^verbatim>\<open>%Y\<close> is the year as
  a decimal number, \<^verbatim>\<open>%m\<close>, \<^verbatim>\<open>%d\<close>, \<^verbatim>\<open>%H\<close>, \<^verbatim>\<open>%M\<close>, \<^verbatim>\<open>%S\<close> are two-digit decimal
  numbers, \<^verbatim>\<open>%F\<close> is \<^verbatim>\<open>%Y-%m-%d\<close>, \<^verbatim>\<open>%T\<close> is \<^verbatim>\<open>%H:%M:%S\<close>; any other character of
  the pattern is copied. Conversions the pattern does not use expand to nothing here.
\<close>

fun strftime_conv :: "char \<Rightarrow> tm \<Rightarrow> string" where
  "strftime_conv c t =
     (if c = CHR ''Y'' then dec_int (sint (tm_year t) + 1900)
      else if c = CHR ''m'' then dec2 (sint (tm_mon t) + 1)
      else if c = CHR ''d'' then dec2 (sint (tm_mday t))
      else if c = CHR ''H'' then dec2 (sint (tm_hour t))
      else if c = CHR ''M'' then dec2 (sint (tm_min t))
      else if c = CHR ''S'' then dec2 (sint (tm_sec t))
      else if c = CHR ''F'' then
        dec_int (sint (tm_year t) + 1900) @ ''-'' @ dec2 (sint (tm_mon t) + 1) @ ''-''
          @ dec2 (sint (tm_mday t))
      else if c = CHR ''T'' then
        dec2 (sint (tm_hour t)) @ '':'' @ dec2 (sint (tm_min t)) @ '':'' @ dec2 (sint (tm_sec t))
      else [])"

fun strftime_expand :: "string \<Rightarrow> tm \<Rightarrow> string" where
  "strftime_expand [] t = []"
| "strftime_expand [c] t = [c]"
| "strftime_expand (c # d # cs) t =
     (if c = CHR ''%'' then strftime_conv d t @ strftime_expand cs t
      else c # strftime_expand (d # cs) t)"

text \<open>
  \<^verbatim>\<open>strftime(s, maxsize, format, tm)\<close>: when the expansion and its terminating NUL fit
  in \<open>maxsize\<close> bytes they are stored in \<open>s\<close>; otherwise the contents of the array are
  indeterminate (\<open>None\<close>).
\<close>

definition strftime :: "char list \<Rightarrow> nat \<Rightarrow> string \<Rightarrow> tm \<Rightarrow> char list option" where
  "strftime s maxsize format t =
     (let out = strftime_expand format t
      in if length out + 1 \<le> maxsize then Some (store s (out @ [NUL])) else None)"

section \<open>The server: \<^verbatim>\<open>daytimed.c\<close>\<close>

definition progname_daytimed :: string where
  "progname_daytimed = ''daytimed''"

subsection \<open>\<^verbatim>\<open>daytime(buffer, size, local)\<close> (the parameter \<^verbatim>\<open>size\<close> is \<open>sz\<close> here)\<close>

text \<open>
  The clock as the formatter sees it: what \<^verbatim>\<open>time(NULL)\<close> returns and what
  \<^verbatim>\<open>localtime\<close> and \<^verbatim>\<open>gmtime\<close> make of a time value (\<open>None\<close> is the NULL pointer).
\<close>

record clock =
  time_now :: "64 word"
  localtime :: "64 word \<Rightarrow> tm option"
  gmtime :: "64 word \<Rightarrow> tm option"

text \<open>The pattern \<^verbatim>\<open>"%F %T\r\n"\<close> of the source.\<close>

definition daytime_format :: string where
  "daytime_format = ''%F %T'' @ [CR, LF]"

text \<open>
  Returns the buffer after the call (\<open>None\<close> when its contents are indeterminate or the
  store to \<^verbatim>\<open>buffer[0]\<close> is out of bounds) and the events.
\<close>

definition daytime ::
  "char list \<Rightarrow> nat \<Rightarrow> int \<Rightarrow> clock \<Rightarrow> char list option \<times> event list" where
  "daytime buffer sz local ck =
     (let ticks = time_now ck;
          tm = (if local \<noteq> 0 then localtime ck ticks else gmtime ck ticks)
      in case tm of
           None \<Rightarrow>
             ((if 0 < length buffer then Some (buffer[0 := NUL]) else None),
              [Syslog LOG_ERR ''localtime or gmtime failed''])
         | Some t \<Rightarrow> (strftime buffer sz daytime_format t, []))"

subsection \<open>\<^verbatim>\<open>sctp_listen(port)\<close>\<close>

text \<open>
  An address candidate of \<^verbatim>\<open>getaddrinfo\<close>, with what the system answers when it is
  tried: the result of \<^verbatim>\<open>socket\<close> and the result of \<^verbatim>\<open>bind\<close> (server) or
  \<^verbatim>\<open>connect\<close> (client) on that socket.
\<close>

record candidate =
  socket_result :: int
  attach_result :: int

record listen_world =
  lw_getaddrinfo :: int            \<comment> \<open>return value of \<^verbatim>\<open>getaddrinfo\<close>\<close>
  lw_gai_strerror :: string
  lw_ai_list :: "candidate list"
  lw_listen :: int                 \<comment> \<open>return value of \<^verbatim>\<open>listen\<close>\<close>
  lw_strerror :: string

text \<open>
  The \<^verbatim>\<open>for\<close> loop over the candidates. The result is the rest of the list at the exit
  (\<open>[]\<close> is \<^verbatim>\<open>ai == NULL\<close>), the value of \<^verbatim>\<open>fd\<close> and the events.
\<close>

fun listen_scan :: "candidate list \<Rightarrow> int \<Rightarrow> candidate list \<times> int \<times> event list" where
  "listen_scan [] fd = ([], fd, [])"
| "listen_scan (ai # rest) fd0 =
     (let fd = socket_result ai
      in if fd < 0 then listen_scan rest fd
         else if attach_result ai = 0 then (ai # rest, fd, [Setsockopt fd ''SO_REUSEADDR''])
         else (case listen_scan rest fd of
                 (ai', fd', evs) \<Rightarrow>
                   (ai', fd', Setsockopt fd ''SO_REUSEADDR'' # Close fd # evs)))"

definition sctp_listen :: "string \<Rightarrow> listen_world \<Rightarrow> int \<times> event list" where
  "sctp_listen port w =
     (if lw_getaddrinfo w \<noteq> 0 then
        (- 1, [Stderr (progname_daytimed @ '': getaddrinfo failed: '' @ lw_gai_strerror w @ [LF])])
      else
        (case listen_scan (lw_ai_list w) 0 of
           (ai, fd, evs) \<Rightarrow>
             if ai = [] then
               (- 1, evs @ [Freeaddrinfo,
                           Stderr (progname_daytimed @ '': bind failed for port '' @ port @ [LF])])
             else if lw_listen w < 0 then
               (- 1, evs @ [Freeaddrinfo, Listen fd 42,
                           Stderr (progname_daytimed @ '': listen failed: '' @ lw_strerror w @ [LF]),
                           Close fd])
             else (fd, evs @ [Freeaddrinfo, Listen fd 42])))"

subsection \<open>\<^verbatim>\<open>sctp_accept(listen)\<close>\<close>

record conn_world =
  cw_accept :: int                 \<comment> \<open>return value of \<^verbatim>\<open>accept\<close>\<close>
  cw_strerror :: string
  cw_getnameinfo :: int            \<comment> \<open>return value of \<^verbatim>\<open>getnameinfo\<close>\<close>
  cw_gai_strerror :: string
  cw_host :: string
  cw_serv :: string
  cw_clock_local :: clock          \<comment> \<open>the clock at the first call of \<^verbatim>\<open>daytime\<close>\<close>
  cw_clock_gmt :: clock            \<comment> \<open>the clock at the second call\<close>
  cw_send_local :: int             \<comment> \<open>return value of the first \<^verbatim>\<open>sctp_sendmsg\<close>\<close>
  cw_send_gmt :: int               \<comment> \<open>return value of the second\<close>
  cw_message :: "char list"        \<comment> \<open>what the array \<^verbatim>\<open>message[128]\<close> holds at entry\<close>

definition sctp_accept :: "int \<Rightarrow> conn_world \<Rightarrow> int \<times> event list" where
  "sctp_accept listen w =
     (let fd = cw_accept w
      in if fd = - 1 then (- 1, [Syslog LOG_ERR (''accept failed: '' @ cw_strerror w)])
         else if cw_getnameinfo w \<noteq> 0 then
           (fd, [Syslog LOG_ERR (''getnameinfo failed: '' @ cw_gai_strerror w)])
         else
           (fd, [Syslog LOG_DEBUG (''connection from '' @ cw_host w @ '':'' @ cw_serv w)]))"

definition sctp_close :: "int \<Rightarrow> event list" where
  "sctp_close fd = [Close fd]"

subsection \<open>\<^verbatim>\<open>sctp_daytime(listenfd)\<close>\<close>

definition DAYTIME_STREAM_LOCAL :: nat where "DAYTIME_STREAM_LOCAL = 0"
definition DAYTIME_STREAM_GMT :: nat where "DAYTIME_STREAM_GMT = 1"

text \<open>The conversion of the \<^verbatim>\<open>int\<close> that \<^verbatim>\<open>sctp_sendmsg\<close> returns to \<^verbatim>\<open>size_t n\<close> (64 bits).\<close>

definition size_t_of_int :: "int \<Rightarrow> nat" where
  "size_t_of_int r = nat (r mod 2 ^ 64)"

text \<open>
  \<open>None\<close> is undefined behaviour: \<^verbatim>\<open>strlen\<close> of an array whose contents are indeterminate
  or hold no NUL. \<open>n\<close> is the \<^verbatim>\<open>size_t\<close> that receives what \<^verbatim>\<open>sctp_sendmsg\<close> returns.
\<close>

definition sctp_daytime :: "int \<Rightarrow> conn_world \<Rightarrow> event list option" where
  "sctp_daytime listenfd w =
     (case sctp_accept listenfd w of
        (client, evs0) \<Rightarrow>
          if client = - 1 then Some evs0
          else
            (case daytime (cw_message w) sizeof_message 1 (cw_clock_local w) of
               (None, evs1) \<Rightarrow> None
             | (Some message1, evs1) \<Rightarrow>
                 (case strlen message1 of
                    None \<Rightarrow> None
                  | Some len1 \<Rightarrow>
                      (let n = size_t_of_int (cw_send_local w);
                           evs2 =
                             Sendmsg client (take len1 message1) DAYTIME_STREAM_LOCAL #
                               (if n \<noteq> len1 then
                                  [Syslog LOG_ERR ''sctp_sendmsg failed (daytime_stream_local)'']
                                else [])
                       in case daytime message1 sizeof_message 0 (cw_clock_gmt w) of
                            (None, evs3) \<Rightarrow> None
                          | (Some message2, evs3) \<Rightarrow>
                              (case strlen message2 of
                                 None \<Rightarrow> None
                               | Some len2 \<Rightarrow>
                                   (let n = size_t_of_int (cw_send_gmt w);
                                        evs4 =
                                          Sendmsg client (take len2 message2) DAYTIME_STREAM_GMT #
                                            (if n \<noteq> len2 then
                                               [Syslog LOG_ERR
                                                  ''sctp_sendmsg failed (daytime_stream_gmt)'']
                                             else [])
                                    in Some (evs0 @ evs1 @ evs2 @ evs3 @ evs4
                                               @ sctp_close client)))))))"

subsection \<open>\<^verbatim>\<open>main\<close> of the server\<close>

text \<open>
  How far a run got: the process exited with a status, it is blocked in its loop (waiting
  in \<^verbatim>\<open>accept\<close> or \<^verbatim>\<open>sctp_recvmsg\<close>) after the answers given, or it ran into undefined
  behaviour.
\<close>

datatype status = Exited int | Blocked | Undefined

text \<open>
  \<^verbatim>\<open>while (tfd != -1) sctp_daytime(tfd);\<close> run against the outcomes of the first
  connections, one \<open>conn_world\<close> for each turn of the loop. \<open>True\<close> in the result: the loop
  condition was false and control left the loop; \<open>False\<close>: the loop is waiting for its next
  connection.
\<close>

fun serve_loop :: "int \<Rightarrow> conn_world list \<Rightarrow> (bool \<times> event list) option" where
  "serve_loop tfd [] = (if tfd \<noteq> - 1 then Some (False, []) else Some (True, []))"
| "serve_loop tfd (w # ws) =
     (if tfd \<noteq> - 1 then
        (case sctp_daytime tfd w of
           None \<Rightarrow> None
         | Some evs \<Rightarrow>
             (case serve_loop tfd ws of
                None \<Rightarrow> None
              | Some (left, evs') \<Rightarrow> Some (left, evs @ evs')))
      else Some (True, []))"

definition server_main ::
  "string list \<Rightarrow> listen_world \<Rightarrow> conn_world list \<Rightarrow> status \<times> event list" where
  "server_main argv lw conns =
     (if length argv \<noteq> 2 then
        (Exited EXIT_FAILURE, [Stderr (''usage: '' @ progname_daytimed @ '' port'' @ [LF])])
      else
        (case sctp_listen (argv ! 1) lw of
           (tfd, evs0) \<Rightarrow>
             (case serve_loop tfd conns of
                None \<Rightarrow> (Undefined, Openlog progname_daytimed # evs0)
              | Some (False, evs1) \<Rightarrow> (Blocked, Openlog progname_daytimed # evs0 @ evs1)
              | Some (True, evs1) \<Rightarrow>
                  (Exited EXIT_SUCCESS,
                   Openlog progname_daytimed # evs0 @ evs1 @ sctp_close tfd @ [Closelog]))))"

section \<open>The client: \<^verbatim>\<open>daytime.c\<close>\<close>

definition progname_daytime :: string where
  "progname_daytime = ''daytime''"

subsection \<open>\<^verbatim>\<open>sctp_connect(host, port)\<close>\<close>

record connect_world =
  xw_getaddrinfo :: int            \<comment> \<open>return value of \<^verbatim>\<open>getaddrinfo\<close>\<close>
  xw_gai_strerror :: string
  xw_ai_list :: "candidate list"

text \<open>A function of the client either returns or ends the process with \<^verbatim>\<open>exit\<close>.\<close>

datatype 'a outcome = Exit int | Return 'a

fun connect_scan :: "candidate list \<Rightarrow> int \<Rightarrow> candidate list \<times> int \<times> event list" where
  "connect_scan [] fd = ([], fd, [])"
| "connect_scan (ai # rest) fd0 =
     (let fd = socket_result ai
      in if fd < 0 then connect_scan rest fd
         else if attach_result ai = 0 then (ai # rest, fd, [])
         else (case connect_scan rest fd of
                 (ai', fd', evs) \<Rightarrow> (ai', fd', Close fd # evs)))"

definition sctp_connect :: "string \<Rightarrow> string \<Rightarrow> connect_world \<Rightarrow> int outcome \<times> event list" where
  "sctp_connect host port w =
     (if xw_getaddrinfo w \<noteq> 0 then
        (Exit EXIT_FAILURE,
         [Stderr (progname_daytime @ '': getaddrinfo: '' @ xw_gai_strerror w @ [LF])])
      else
        (case connect_scan (xw_ai_list w) 0 of
           (ai, fd, evs) \<Rightarrow>
             if ai = [] then
               (Exit EXIT_FAILURE,
                evs @ [Freeaddrinfo,
                       Stderr (progname_daytime @ '': socket or connect: failed for '' @ host
                                 @ '' port '' @ port @ [LF])])
             else (Return fd, evs @ [Freeaddrinfo])))"

subsection \<open>\<^verbatim>\<open>daytime(fd)\<close> of the client\<close>

text \<open>
  What one call of \<^verbatim>\<open>sctp_recvmsg\<close> finds: a message (its bytes and the stream number
  put into \<^verbatim>\<open>sinfo.sinfo_stream\<close>), the end of the association (the call returns 0) or
  an error (it returns -1).
\<close>

datatype recv = Message "char list" "16 word" | Shutdown | Failed

record peer_world =
  pw_getpeername :: int            \<comment> \<open>return value of \<^verbatim>\<open>getpeername\<close>\<close>
  pw_strerror :: string
  pw_getnameinfo :: int            \<comment> \<open>return value of \<^verbatim>\<open>getnameinfo\<close>\<close>
  pw_gai_strerror :: string
  pw_host :: string                \<comment> \<open>the strings \<^verbatim>\<open>getnameinfo\<close> stores in \<^verbatim>\<open>host\<close> and \<^verbatim>\<open>serv\<close>\<close>
  pw_serv :: string
  pw_setsockopt :: int             \<comment> \<open>return value of \<^verbatim>\<open>setsockopt\<close>\<close>
  pw_setsockopt_strerror :: string
  pw_message :: "char list"        \<comment> \<open>what the array \<^verbatim>\<open>message[128]\<close> holds at entry\<close>
  pw_sinfo_stream :: "16 word"     \<comment> \<open>what \<^verbatim>\<open>sinfo.sinfo_stream\<close> holds at entry\<close>
  pw_recv :: "recv list"           \<comment> \<open>what the successive calls of \<^verbatim>\<open>sctp_recvmsg\<close> find\<close>

text \<open>
  \<^verbatim>\<open>sctp_recvmsg(fd, msg, len, ...)\<close> stores at most \<open>len\<close> bytes of the message in
  \<open>msg\<close> and returns their number. The result: the return value, the array and
  \<^verbatim>\<open>sinfo.sinfo_stream\<close> after the call.
\<close>

definition sctp_recvmsg ::
  "char list \<Rightarrow> nat \<Rightarrow> 16 word \<Rightarrow> recv \<Rightarrow> int \<times> char list \<times> 16 word" where
  "sctp_recvmsg msg len sinfo_stream r =
     (case r of
        Message bs s \<Rightarrow> (int (length (take len bs)), store msg (take len bs), s)
      | Shutdown \<Rightarrow> (0, msg, sinfo_stream)
      | Failed \<Rightarrow> (- 1, msg, sinfo_stream))"

text \<open>
  \<^verbatim>\<open>strstr\<close> (C library): the offset of the first occurrence of the needle in the C
  string held in the array, \<open>None\<close> for the NULL pointer.
\<close>

fun starts_with :: "string \<Rightarrow> string \<Rightarrow> bool" where
  "starts_with [] hay = True"
| "starts_with (c # cs) [] = False"
| "starts_with (c # cs) (h # hs) = (c = h \<and> starts_with cs hs)"

fun find_sub :: "string \<Rightarrow> string \<Rightarrow> nat option" where
  "find_sub needle [] = (if needle = [] then Some 0 else None)"
| "find_sub needle (h # hs) =
     (if starts_with needle (h # hs) then Some 0 else map_option Suc (find_sub needle hs))"

definition strstr :: "char list \<Rightarrow> string \<Rightarrow> nat option" where
  "strstr buf needle = find_sub needle (cstr buf)"

text \<open>
  The body of the receive loop for a call that returned \<open>n > 0\<close>: terminate, trim at
  \<^verbatim>\<open>"\r\n"\<close>, print by stream. \<open>None\<close>: the store \<^verbatim>\<open>message[n] = '\0'\<close> is out of bounds.
\<close>

definition show_message ::
  "string \<Rightarrow> string \<Rightarrow> char list \<Rightarrow> nat \<Rightarrow> 16 word \<Rightarrow> (char list \<times> event list) option" where
  "show_message host serv message n sinfo_stream =
     (if n < length message then
        (let message1 = message[n := NUL];
             p = strstr message1 [CR, LF];
             message2 = (case p of Some i \<Rightarrow> message1[i := NUL] | None \<Rightarrow> message1)
         in Some (message2,
              if sinfo_stream = 0 then
                [Stdout (host @ '':'' @ serv @ [TAB] @ '' '' @ cstr message2
                           @ '' (local time)'' @ [LF])]
              else if sinfo_stream = 1 then
                [Stdout (host @ '':'' @ serv @ [TAB] @ '' '' @ cstr message2
                           @ '' (gmt time)'' @ [LF])]
              else
                [Stderr (progname_daytime @ '': ignoring message from unknown stream ''
                           @ dec_int (uint sinfo_stream) @ [LF])]))
      else None)"

text \<open>
  The \<^verbatim>\<open>while\<close> loop, run against the answers of the first calls of \<^verbatim>\<open>sctp_recvmsg\<close>.
  \<open>True\<close> in the result: a call returned 0 or less and control left the loop; \<open>False\<close>:
  the loop is waiting in its next call.
\<close>

fun recv_loop ::
  "int \<Rightarrow> string \<Rightarrow> string \<Rightarrow> char list \<Rightarrow> 16 word \<Rightarrow> recv list \<Rightarrow> (bool \<times> event list) option" where
  "recv_loop fd host serv message sinfo_stream [] = Some (False, [Recvmsg fd (sizeof_message - 1)])"
| "recv_loop fd host serv message sinfo_stream (r # rs) =
     (case sctp_recvmsg message (sizeof_message - 1) sinfo_stream r of
        (n, message1, sinfo_stream1) \<Rightarrow>
          if n > 0 then
            (case show_message host serv message1 (nat n) sinfo_stream1 of
               None \<Rightarrow> None
             | Some (message2, evs) \<Rightarrow>
                 (case recv_loop fd host serv message2 sinfo_stream1 rs of
                    None \<Rightarrow> None
                  | Some (left, evs') \<Rightarrow>
                      Some (left, Recvmsg fd (sizeof_message - 1) # evs @ evs')))
          else Some (True, [Recvmsg fd (sizeof_message - 1)]))"

text \<open>
  The receive phase. The result reads as that of the loop: \<open>True\<close> when the function has
  returned (after the loop, or at once when the peer's address cannot be had), \<open>False\<close>
  while it waits in \<^verbatim>\<open>sctp_recvmsg\<close>.
\<close>

definition client_daytime :: "int \<Rightarrow> peer_world \<Rightarrow> (bool \<times> event list) option" where
  "client_daytime fd w =
     (if pw_getpeername w \<noteq> 0 then
        Some (True, [Stderr (progname_daytime @ '': getpeername: '' @ pw_strerror w @ [LF])])
      else if pw_getnameinfo w \<noteq> 0 then
        Some (True, [Stderr (progname_daytime @ '': getnameinfo: '' @ pw_gai_strerror w @ [LF])])
      else
        (let evs0 =
               Setsockopt fd ''SCTP_EVENTS'' #
                 (if 0 \<noteq> pw_setsockopt w then
                    [Stderr (progname_daytime @ '': setsockopt failed: ''
                               @ pw_setsockopt_strerror w @ [LF])]
                  else [])
         in case recv_loop fd (pw_host w) (pw_serv w) (pw_message w) (pw_sinfo_stream w)
                   (pw_recv w) of
              None \<Rightarrow> None
            | Some (left, evs) \<Rightarrow> Some (left, evs0 @ evs)))"

subsection \<open>\<^verbatim>\<open>main\<close> of the client\<close>

definition client_main ::
  "string list \<Rightarrow> connect_world \<Rightarrow> peer_world \<Rightarrow> status \<times> event list" where
  "client_main argv xw pw =
     (if length argv \<noteq> 3 then
        (Exited EXIT_FAILURE, [Stderr (''usage: '' @ progname_daytime @ '' host port'' @ [LF])])
      else
        (case sctp_connect (argv ! 1) (argv ! 2) xw of
           (Exit code, evs0) \<Rightarrow> (Exited code, evs0)
         | (Return fd, evs0) \<Rightarrow>
             (case client_daytime fd pw of
                None \<Rightarrow> (Undefined, evs0)
              | Some (False, evs1) \<Rightarrow> (Blocked, evs0 @ evs1)
              | Some (True, evs1) \<Rightarrow> (Exited EXIT_SUCCESS, evs0 @ evs1 @ sctp_close fd))))"

section \<open>Notions used in the statements\<close>

subsection \<open>Reading an event list\<close>

text \<open>The descriptors closed, in order, and the messages sent (descriptor, stream, payload).\<close>

fun closed_fds :: "event list \<Rightarrow> int list" where
  "closed_fds [] = []"
| "closed_fds (Close fd # evs) = fd # closed_fds evs"
| "closed_fds (e # evs) = closed_fds evs"

fun sent_messages :: "event list \<Rightarrow> (int \<times> nat \<times> char list) list" where
  "sent_messages [] = []"
| "sent_messages (Sendmsg fd payload stream # evs) = (fd, stream, payload) # sent_messages evs"
| "sent_messages (e # evs) = sent_messages evs"

text \<open>The lines written to the error channel.\<close>

fun stderr_lines :: "event list \<Rightarrow> string list" where
  "stderr_lines [] = []"
| "stderr_lines (Stderr s # evs) = s # stderr_lines evs"
| "stderr_lines (e # evs) = stderr_lines evs"

text \<open>The events of one turn of the server's loop (none when the turn is undefined).\<close>

definition session_events :: "int \<Rightarrow> conn_world \<Rightarrow> event list" where
  "session_events tfd w = (case sctp_daytime tfd w of Some evs \<Rightarrow> evs | None \<Rightarrow> [])"

text \<open>
  The array \<^verbatim>\<open>message\<close> of the session handler after the first and after the second call
  of the formatter.
\<close>

definition local_buffer :: "conn_world \<Rightarrow> char list" where
  "local_buffer w =
     (case fst (daytime (cw_message w) sizeof_message 1 (cw_clock_local w)) of
        Some b \<Rightarrow> b | None \<Rightarrow> cw_message w)"

definition gmt_buffer :: "conn_world \<Rightarrow> char list" where
  "gmt_buffer w =
     (case fst (daytime (local_buffer w) sizeof_message 0 (cw_clock_gmt w)) of
        Some b \<Rightarrow> b | None \<Rightarrow> local_buffer w)"

text \<open>One string occurs inside another.\<close>

definition contains :: "string \<Rightarrow> string \<Rightarrow> bool" where
  "contains needle hay = (find_sub needle hay \<noteq> None)"

subsection \<open>The specification's description of the client's output\<close>

text \<open>
  A message cut at the first occurrence of \<^verbatim>\<open>"\r\n"\<close>, and what the specification says is
  done with a received message: the text (the message cut at the first \<^verbatim>\<open>"\r\n"\<close>, as
  \<^verbatim>\<open>%s\<close> prints it) goes to standard output with the label of stream 0 or 1; for any other
  stream there is only a diagnostic on the error channel.
\<close>

fun trim_crlf :: "char list \<Rightarrow> char list" where
  "trim_crlf [] = []"
| "trim_crlf [c] = [c]"
| "trim_crlf (c # d # cs) = (if c = CR \<and> d = LF then [] else c # trim_crlf (d # cs))"

definition message_events :: "string \<Rightarrow> string \<Rightarrow> 16 word \<Rightarrow> char list \<Rightarrow> event list" where
  "message_events host serv stream rd =
     (let text = cstr (trim_crlf rd)
      in if stream = 0 then
           [Stdout (host @ '':'' @ serv @ [TAB] @ '' '' @ text @ '' (local time)'' @ [LF])]
         else if stream = 1 then
           [Stdout (host @ '':'' @ serv @ [TAB] @ '' '' @ text @ '' (gmt time)'' @ [LF])]
         else
           [Stderr (''daytime: ignoring message from unknown stream ''
                      @ dec_int (uint stream) @ [LF])])"

text \<open>
  The messages the receive loop handles: what the calls of \<^verbatim>\<open>sctp_recvmsg\<close> store (at most
  \<^verbatim>\<open>sizeof(message) - 1\<close> bytes each) up to the first call that returns 0 or less.
\<close>

fun received :: "recv list \<Rightarrow> (char list \<times> 16 word) list" where
  "received [] = []"
| "received (Message bs s # rs) =
     (if take (sizeof_message - 1) bs = [] then []
      else (take (sizeof_message - 1) bs, s) # received rs)"
| "received (r # rs) = []"

subsection \<open>The fixed format of a daytime string\<close>

definition is_digit :: "char \<Rightarrow> bool" where
  "is_digit c = (c \<in> set ''0123456789'')"

text \<open>
  A string fits a template such as \<^verbatim>\<open>YYYY-MM-DD HH:MM:SS\<close> when it has a decimal digit
  wherever the template has one of the letters Y, M, D, H, S, and the template's own
  character everywhere else.
\<close>

fun matches_template :: "string \<Rightarrow> string \<Rightarrow> bool" where
  "matches_template [] [] = True"
| "matches_template (p # ps) (c # cs) =
     ((if p \<in> set ''YMDHS'' then is_digit c else c = p) \<and> matches_template ps cs)"
| "matches_template ps cs = False"

definition two_digits :: "nat \<Rightarrow> string" where
  "two_digits n = [digit (n div 10), digit (n mod 10)]"

definition four_digits :: "nat \<Rightarrow> string" where
  "four_digits n =
     [digit (n div 1000), digit (n div 100 mod 10), digit (n div 10 mod 10), digit (n mod 10)]"

text \<open>The ranges of the fields of a broken-down calendar time (ISO C 7.27.1).\<close>

definition tm_in_range :: "tm \<Rightarrow> bool" where
  "tm_in_range t =
     (0 \<le> sint (tm_sec t) \<and> sint (tm_sec t) \<le> 60 \<and>
      0 \<le> sint (tm_min t) \<and> sint (tm_min t) \<le> 59 \<and>
      0 \<le> sint (tm_hour t) \<and> sint (tm_hour t) \<le> 23 \<and>
      1 \<le> sint (tm_mday t) \<and> sint (tm_mday t) \<le> 31 \<and>
      0 \<le> sint (tm_mon t) \<and> sint (tm_mon t) \<le> 11)"

text \<open>The calendar time written as year, month, day, hour, minute and second.\<close>

definition timestamp :: "tm \<Rightarrow> string" where
  "timestamp t =
     four_digits (nat (sint (tm_year t) + 1900)) @ ''-'' @ two_digits (nat (sint (tm_mon t) + 1))
       @ ''-'' @ two_digits (nat (sint (tm_mday t))) @ '' '' @ two_digits (nat (sint (tm_hour t)))
       @ '':'' @ two_digits (nat (sint (tm_min t))) @ '':'' @ two_digits (nat (sint (tm_sec t)))"

subsection \<open>Concrete runs\<close>

text \<open>29 February 2024, 13:05:09 local time, 12:05:09 UTC.\<close>

definition example_tm :: tm where
  "example_tm = \<lparr>tm_sec = 9, tm_min = 5, tm_hour = 13, tm_mday = 29, tm_mon = 1, tm_year = 124\<rparr>"

definition example_clock :: clock where
  "example_clock =
     \<lparr>time_now = 1709211909, localtime = (\<lambda>ticks. Some example_tm),
      gmtime = (\<lambda>ticks. Some (example_tm\<lparr>tm_hour := 12\<rparr>))\<rparr>"

text \<open>A clock whose breakdown fails.\<close>

definition broken_clock :: clock where
  "broken_clock = \<lparr>time_now = - 1, localtime = (\<lambda>ticks. None), gmtime = (\<lambda>ticks. None)\<rparr>"

text \<open>The first second of the year 10000 (UTC).\<close>

definition clock_10000 :: clock where
  "clock_10000 =
     \<lparr>time_now = 253402300800,
      localtime = (\<lambda>ticks. Some \<lparr>tm_sec = 0, tm_min = 0, tm_hour = 0, tm_mday = 1, tm_mon = 0,
                                  tm_year = 8100\<rparr>),
      gmtime = (\<lambda>ticks. Some \<lparr>tm_sec = 0, tm_min = 0, tm_hour = 0, tm_mday = 1, tm_mon = 0,
                               tm_year = 8100\<rparr>)\<rparr>"

text \<open>
  An accepted connection (descriptor 5): the first send transfers all 21 bytes, the second
  fails.
\<close>

definition example_conn :: conn_world where
  "example_conn =
     \<lparr>cw_accept = 5, cw_strerror = ''Success'', cw_getnameinfo = 0, cw_gai_strerror = ''Success'',
      cw_host = ''127.0.0.1'', cw_serv = ''40000'', cw_clock_local = example_clock,
      cw_clock_gmt = example_clock, cw_send_local = 21, cw_send_gmt = - 1,
      cw_message = replicate 128 (CHR ''x'')\<rparr>"

text \<open>The same connection on a machine whose clock cannot be broken down.\<close>

definition clockless_conn :: conn_world where
  "clockless_conn = example_conn\<lparr>cw_clock_local := broken_clock, cw_clock_gmt := broken_clock\<rparr>"

text \<open>A turn of the loop in which \<^verbatim>\<open>accept\<close> fails.\<close>

definition refused_conn :: conn_world where
  "refused_conn = example_conn\<lparr>cw_accept := - 1, cw_strerror := ''Too many open files''\<rparr>"

text \<open>A server start that works (the second candidate binds, descriptor 3) and one that
  does not (the port name does not resolve).\<close>

definition example_listen :: listen_world where
  "example_listen =
     \<lparr>lw_getaddrinfo = 0, lw_gai_strerror = ''Success'',
      lw_ai_list = [\<lparr>socket_result = - 1, attach_result = 0\<rparr>,
                    \<lparr>socket_result = 3, attach_result = 0\<rparr>],
      lw_listen = 0, lw_strerror = ''Success''\<rparr>"

definition unresolved_listen :: listen_world where
  "unresolved_listen =
     \<lparr>lw_getaddrinfo = - 8, lw_gai_strerror = ''Servname not supported for ai_socktype'',
      lw_ai_list = [], lw_listen = 0, lw_strerror = ''Success''\<rparr>"

text \<open>
  Client runs: a name that does not resolve; a name whose only candidate refuses the
  connection; a peer that sends two messages and closes; the same with
  \<^verbatim>\<open>getpeername\<close> failing.
\<close>

definition unresolved_connect :: connect_world where
  "unresolved_connect =
     \<lparr>xw_getaddrinfo = - 2, xw_gai_strerror = ''Name or service not known'', xw_ai_list = []\<rparr>"

definition refused_connect :: connect_world where
  "refused_connect =
     \<lparr>xw_getaddrinfo = 0, xw_gai_strerror = ''Success'',
      xw_ai_list = [\<lparr>socket_result = 3, attach_result = - 1\<rparr>]\<rparr>"

definition example_peer :: peer_world where
  "example_peer =
     \<lparr>pw_getpeername = 0, pw_strerror = ''Success'', pw_getnameinfo = 0,
      pw_gai_strerror = ''Success'', pw_host = ''127.0.0.1'', pw_serv = ''13'',
      pw_setsockopt = 0, pw_setsockopt_strerror = ''Success'',
      pw_message = replicate 128 (CHR ''x''), pw_sinfo_stream = 7,
      pw_recv = [Message (''2024-02-29 13:05:09'' @ [CR, LF]) 0,
                 Message (''2024-02-29 12:05:09'' @ [CR, LF]) 1, Shutdown]\<rparr>"

definition nameless_peer :: peer_world where
  "nameless_peer =
     example_peer\<lparr>pw_getpeername := - 1, pw_strerror := ''Transport endpoint is not connected''\<rparr>"

section \<open>Lemmas\<close>

subsection \<open>C strings and arrays\<close>

lemma cstr_append_NUL: "NUL \<notin> set out \<Longrightarrow> cstr (out @ NUL # rest) = out"
  by (induction out) (auto simp: cstr_def)

lemma cstr_append_NUL_gen: "cstr (out @ NUL # rest) = cstr out"
  by (induction out) (simp_all add: cstr_def)

lemma cstr_no_NUL: "NUL \<notin> set s \<Longrightarrow> cstr s = s"
  by (auto simp: cstr_def)

lemma length_cstr_less: "NUL \<in> set buf \<Longrightarrow> length (cstr buf) < length buf"
  by (induction buf) (auto simp: cstr_def)

lemma length_cstr_le: "length (cstr buf) \<le> length buf"
  by (simp add: cstr_def length_takeWhile_le)

lemma take_cstr: "take (length (cstr buf)) buf = cstr buf"
  by (induction buf) (auto simp: cstr_def)

lemma length_store: "length bs \<le> length buf \<Longrightarrow> length (store buf bs) = length buf"
  by (simp add: store_def)

lemma cstr_store_NUL: "NUL \<notin> set out \<Longrightarrow> cstr (store buf (out @ [NUL])) = out"
  using cstr_append_NUL [of out "drop (length (out @ [NUL])) buf"] by (simp add: store_def)

lemma cstr_update_NUL: "i < length (cstr b) \<Longrightarrow> cstr (b[i := NUL]) = take i (cstr b)"
proof (induction b arbitrary: i)
  case Nil then show ?case by (simp add: cstr_def)
next
  case (Cons c b)
  then show ?case by (cases i) (auto simp: cstr_def split: if_splits)
qed

lemma cstr_update_0: "cstr (buffer[0 := NUL]) = []"
  by (cases buffer) (simp_all add: cstr_def)

lemma store_update_NUL:
  "length rd < length message \<Longrightarrow>
   (store message rd)[length rd := NUL] = rd @ NUL # drop (Suc (length rd)) message"
proof -
  assume lt: "length rd < length message"
  have "drop (length rd) message = message ! length rd # drop (Suc (length rd)) message"
    using lt by (simp add: Cons_nth_drop_Suc)
  then show ?thesis by (simp add: store_def list_update_append)
qed

subsection \<open>Event lists\<close>

lemma closed_fds_append: "closed_fds (xs @ ys) = closed_fds xs @ closed_fds ys"
  by (induction xs rule: closed_fds.induct) simp_all

lemma sent_messages_append: "sent_messages (xs @ ys) = sent_messages xs @ sent_messages ys"
  by (induction xs rule: sent_messages.induct) simp_all

lemma stderr_lines_append: "stderr_lines (xs @ ys) = stderr_lines xs @ stderr_lines ys"
  by (induction xs rule: stderr_lines.induct) simp_all

subsection \<open>Decimal output and the daytime pattern\<close>

text \<open>
  The expansion of the pattern has at most 73 bytes whatever the fields hold, so it always
  fits the 128-byte array; for a four-digit year and fields in their ranges it is the
  timestamp of fixed width.
\<close>

lemma length_dec_nat: "0 < k \<Longrightarrow> n < 10 ^ k \<Longrightarrow> length (dec_nat n) \<le> k"
proof (induction k arbitrary: n)
  case 0 then show ?case by simp
next
  case (Suc k)
  show ?case
  proof (cases "n < 10")
    case True then show ?thesis by (subst dec_nat.simps) simp
  next
    case False
    then have k: "0 < k" using Suc.prems by (cases k) auto
    have "n div 10 < 10 ^ k" using Suc.prems by (simp add: less_mult_imp_div_less mult.commute)
    then have "length (dec_nat (n div 10)) \<le> k" using Suc.IH k by blast
    then show ?thesis using False by (subst dec_nat.simps) simp
  qed
qed

lemma length_dec_int: "- (10 ^ 10) < i \<Longrightarrow> i < 10 ^ 10 \<Longrightarrow> length (dec_int i) \<le> 11"
proof -
  assume lo: "- (10 ^ 10) < i" and hi: "i < 10 ^ 10"
  have a: "nat i < 10 ^ 10" using hi by (simp add: nat_less_iff)
  have b: "nat (- i) < 10 ^ 10" using lo by (simp add: nat_less_iff)
  show ?thesis
    using length_dec_nat [OF _ a] length_dec_nat [OF _ b] by (simp add: dec_int_def)
qed

lemma length_dec2: "- (10 ^ 10) < i \<Longrightarrow> i < 10 ^ 10 \<Longrightarrow> length (dec2 i) \<le> 11"
proof -
  assume lo: "- (10 ^ 10) < i" and hi: "i < 10 ^ 10"
  have "length (dec_int i) \<le> 1" if "0 \<le> i" "i < 10"
  proof -
    have "nat i < 10 ^ 1" using that by (simp add: nat_less_iff)
    from length_dec_nat [OF _ this] show ?thesis using that by (simp add: dec_int_def)
  qed
  then show ?thesis
    using length_dec_int [OF lo hi] by (auto simp: dec2_def)
qed

lemma sint32_bounds:
  "0 \<le> d \<Longrightarrow> d \<le> 1900 \<Longrightarrow>
   - (10 ^ 10) < sint (w :: 32 word) + d \<and> sint w + d < 10 ^ 10"
  using sint_ge [of w] sint_lt [of w] by simp

lemma expand_daytime_format:
  "strftime_expand daytime_format t =
     dec_int (sint (tm_year t) + 1900) @ ''-'' @ dec2 (sint (tm_mon t) + 1) @ ''-''
       @ dec2 (sint (tm_mday t)) @ '' '' @ dec2 (sint (tm_hour t)) @ '':''
       @ dec2 (sint (tm_min t)) @ '':'' @ dec2 (sint (tm_sec t)) @ [CR, LF]"
  by (simp add: daytime_format_def)

lemma length_expand_daytime_format: "length (strftime_expand daytime_format t) \<le> 73"
proof -
  have y: "length (dec_int (sint (tm_year t) + 1900)) \<le> 11"
    using sint32_bounds [of 1900 "tm_year t"] by (intro length_dec_int) simp_all
  have m: "length (dec2 (sint (tm_mon t) + 1)) \<le> 11"
    using sint32_bounds [of 1 "tm_mon t"] by (intro length_dec2) simp_all
  have r: "length (dec2 (sint w)) \<le> 11" for w :: "32 word"
    using sint32_bounds [of 0 w] by (intro length_dec2) simp_all
  show ?thesis
    using y m r [of "tm_mday t"] r [of "tm_hour t"] r [of "tm_min t"] r [of "tm_sec t"]
    by (simp add: expand_daytime_format)
qed

lemma strftime_daytime_fits:
  "strftime s sizeof_message daytime_format t =
     Some (store s (strftime_expand daytime_format t @ [NUL]))"
  using length_expand_daytime_format [of t] by (simp add: strftime_def sizeof_message_def Let_def)

lemma dec_nat_one: "n < 10 \<Longrightarrow> dec_nat n = [digit n]"
  by (subst dec_nat.simps) simp

lemma dec_nat_step: "10 \<le> n \<Longrightarrow> dec_nat n = dec_nat (n div 10) @ [digit (n mod 10)]"
  by (subst dec_nat.simps) simp

lemma dec_nat_two: "10 \<le> n \<Longrightarrow> n \<le> 99 \<Longrightarrow> dec_nat n = two_digits n"
proof -
  assume n: "10 \<le> n" "n \<le> 99"
  then have "n div 10 < 10" by simp
  then show ?thesis using n by (simp add: dec_nat_step dec_nat_one two_digits_def)
qed

lemma dec2_two: "0 \<le> i \<Longrightarrow> i \<le> 99 \<Longrightarrow> dec2 i = two_digits (nat i)"
proof -
  assume i: "0 \<le> i" "i \<le> 99"
  show ?thesis
  proof (cases "i < 10")
    case True
    then have "nat i < 10" using i by simp
    then show ?thesis using True i by (simp add: dec2_def dec_int_def dec_nat_one two_digits_def digit_def)
  next
    case False
    then have "10 \<le> nat i" "nat i \<le> 99" using i by simp_all
    then show ?thesis using False i by (simp add: dec2_def dec_int_def dec_nat_two)
  qed
qed

lemma dec_nat_four: "1000 \<le> n \<Longrightarrow> n \<le> 9999 \<Longrightarrow> dec_nat n = four_digits n"
proof -
  assume n: "1000 \<le> n" "n \<le> 9999"
  have a: "dec_nat n = dec_nat (n div 10) @ [digit (n mod 10)]"
    using n by (intro dec_nat_step) simp
  have "10 \<le> n div 10" using n by simp
  from dec_nat_step [OF this]
  have b: "dec_nat (n div 10) = dec_nat (n div 100) @ [digit (n div 10 mod 10)]"
    by (simp add: div_mult2_eq [symmetric])
  have "10 \<le> n div 100" using n by simp
  from dec_nat_step [OF this]
  have c: "dec_nat (n div 100) = dec_nat (n div 1000) @ [digit (n div 100 mod 10)]"
    by (simp add: div_mult2_eq [symmetric])
  have "n div 1000 < 10" using n by simp
  from dec_nat_one [OF this]
  have d: "dec_nat (n div 1000) = [digit (n div 1000)]" .
  show ?thesis by (simp add: a b c d four_digits_def)
qed

lemma is_digit_digit: "d < 10 \<Longrightarrow> is_digit (digit d)"
  unfolding is_digit_def digit_def by (rule nth_mem) simp

lemma is_digit_mod: "is_digit (digit (n mod 10))"
  by (rule is_digit_digit) simp

lemma is_digit_tens: "i \<le> 99 \<Longrightarrow> is_digit (digit (nat i div 10))"
  by (rule is_digit_digit) simp

lemma is_digit_thousands: "i \<le> 9999 \<Longrightarrow> is_digit (digit (nat i div 1000))"
  by (rule is_digit_digit) simp

lemma timestamp_expand:
  assumes "tm_in_range t" "1000 \<le> sint (tm_year t) + 1900" "sint (tm_year t) + 1900 \<le> 9999"
  shows "strftime_expand daytime_format t = timestamp t @ [CR, LF]"
proof -
  have y: "dec_int (sint (tm_year t) + 1900) = four_digits (nat (sint (tm_year t) + 1900))"
    using assms(2,3) by (simp add: dec_int_def dec_nat_four)
  show ?thesis using assms(1)
    by (simp add: expand_daytime_format y timestamp_def tm_in_range_def dec2_two)
qed

lemma timestamp_template:
  assumes "tm_in_range t" "1000 \<le> sint (tm_year t) + 1900" "sint (tm_year t) + 1900 \<le> 9999"
  shows "matches_template ''YYYY-MM-DD HH:MM:SS'' (timestamp t)"
  using assms
  by (simp add: timestamp_def tm_in_range_def two_digits_def four_digits_def is_digit_mod
        is_digit_tens is_digit_thousands)

lemma timestamp_no_NUL:
  assumes "tm_in_range t" "1000 \<le> sint (tm_year t) + 1900" "sint (tm_year t) + 1900 \<le> 9999"
  shows "NUL \<notin> set (timestamp t @ [CR, LF])"
proof -
  have "c \<noteq> NUL" if "c \<in> set (timestamp t)" for c
  proof -
    have "is_digit c \<or> c \<in> set ''-: ''"
      using that assms
      by (auto simp: timestamp_def tm_in_range_def two_digits_def four_digits_def is_digit_mod
            is_digit_tens is_digit_thousands)
    then show ?thesis by (auto simp: is_digit_def)
  qed
  then show ?thesis by auto
qed

lemma length_timestamp: "length (timestamp t) = 19"
  by (simp add: timestamp_def two_digits_def four_digits_def)

lemma dec_int_10000: "dec_int 10000 = ''10000''"
  by (simp add: dec_int_def dec_nat.simps digit_def)

lemma dec2_small: "dec2 0 = ''00''" "dec2 1 = ''01''"
  by (simp_all add: dec2_def dec_int_def dec_nat.simps digit_def)

subsection \<open>The formatter\<close>

text \<open>
  What the formatter leaves in a 128-byte array: always defined, of the same size, with a NUL
  inside.
\<close>

lemma daytime_defined:
  assumes "length buffer = sizeof_message"
  shows "\<exists>b. fst (daytime buffer sizeof_message local ck) = Some b
           \<and> length b = sizeof_message \<and> NUL \<in> set b"
proof (cases "if local \<noteq> 0 then localtime ck (time_now ck) else gmtime ck (time_now ck)")
  case None
  then show ?thesis using assms
    by (auto simp: daytime_def Let_def sizeof_message_def set_update_memI)
next
  case (Some t)
  have "length (strftime_expand daytime_format t @ [NUL]) \<le> length buffer"
    using length_expand_daytime_format [of t] assms by (simp add: sizeof_message_def)
  then have "length (store buffer (strftime_expand daytime_format t @ [NUL])) = sizeof_message"
    using assms by (simp only: length_store)
  moreover have "NUL \<in> set (store buffer (strftime_expand daytime_format t @ [NUL]))"
    by (simp add: store_def)
  ultimately show ?thesis using Some
    by (simp add: daytime_def Let_def strftime_daytime_fits)
qed

lemma daytime_formatted:
  assumes "(if local \<noteq> 0 then localtime ck (time_now ck) else gmtime ck (time_now ck)) = Some t"
  shows "daytime buffer sizeof_message local ck
           = (Some (store buffer (strftime_expand daytime_format t @ [NUL])), [])"
  using assms by (simp add: daytime_def Let_def strftime_daytime_fits)

lemma daytime_formatted_sz:
  assumes "(if local \<noteq> 0 then localtime ck (time_now ck) else gmtime ck (time_now ck)) = Some t"
    and "length (strftime_expand daytime_format t) < sz"
  shows "daytime buffer sz local ck
           = (Some (store buffer (strftime_expand daytime_format t @ [NUL])), [])"
  using assms by (simp add: daytime_def Let_def strftime_def)

lemma daytime_failed:
  "(if local \<noteq> 0 then localtime ck (time_now ck) else gmtime ck (time_now ck)) = None \<Longrightarrow>
   0 < length buffer \<Longrightarrow>
   daytime buffer sz local ck
     = (Some (buffer[0 := NUL]), [Syslog LOG_ERR ''localtime or gmtime failed''])"
  by (simp add: daytime_def Let_def)

lemma daytime_failed_buffer:
  assumes "(if local \<noteq> 0 then localtime ck (time_now ck) else gmtime ck (time_now ck)) = None"
    and "fst (daytime buffer sz local ck) = Some b" and "0 < length buffer"
  shows "cstr b = []" and "snd (daytime buffer sz local ck) = [Syslog LOG_ERR ''localtime or gmtime failed'']"
  using assms(2) daytime_failed [OF assms(1,3), of sz] by (auto simp: cstr_update_0)

lemma daytime_closed: "closed_fds (snd (daytime buffer sz local ck)) = []"
  by (simp add: daytime_def Let_def split: option.splits)

lemma daytime_sent: "sent_messages (snd (daytime buffer sz local ck)) = []"
  by (simp add: daytime_def Let_def split: option.splits)

lemma daytime_log_not_send_failure:
  "Syslog LOG_ERR (CHR ''s'' # rest) \<notin> set (snd (daytime buffer sz local ck))"
  by (simp add: daytime_def Let_def split: option.splits)

subsection \<open>The session handler\<close>

text \<open>
  With a 128-byte array the handler is never undefined, and its events have one shape.
\<close>

lemma sctp_accept_fst: "fst (sctp_accept listenfd w) = cw_accept w"
  by (simp add: sctp_accept_def Let_def)

lemma sctp_accept_closed: "closed_fds (snd (sctp_accept listenfd w)) = []"
  by (simp add: sctp_accept_def Let_def)

lemma sctp_accept_sent: "sent_messages (snd (sctp_accept listenfd w)) = []"
  by (simp add: sctp_accept_def Let_def)

lemma accept_log_not_send_failure:
  "Syslog LOG_ERR (CHR ''s'' # rest) \<notin> set (snd (sctp_accept listenfd w))"
  by (simp add: sctp_accept_def Let_def)

lemma sctp_daytime_shape:
  assumes acc: "cw_accept w \<noteq> - 1" and len: "length (cw_message w) = sizeof_message"
  shows "\<exists>m1 m2.
    fst (daytime (cw_message w) sizeof_message 1 (cw_clock_local w)) = Some m1 \<and>
    fst (daytime m1 sizeof_message 0 (cw_clock_gmt w)) = Some m2 \<and>
    length m1 = sizeof_message \<and> length m2 = sizeof_message \<and>
    length (cstr m1) < sizeof_message \<and> length (cstr m2) < sizeof_message \<and>
    sctp_daytime listenfd w =
      Some (snd (sctp_accept listenfd w)
            @ snd (daytime (cw_message w) sizeof_message 1 (cw_clock_local w))
            @ [Sendmsg (cw_accept w) (cstr m1) DAYTIME_STREAM_LOCAL]
            @ (if size_t_of_int (cw_send_local w) \<noteq> length (cstr m1)
               then [Syslog LOG_ERR ''sctp_sendmsg failed (daytime_stream_local)''] else [])
            @ snd (daytime m1 sizeof_message 0 (cw_clock_gmt w))
            @ [Sendmsg (cw_accept w) (cstr m2) DAYTIME_STREAM_GMT]
            @ (if size_t_of_int (cw_send_gmt w) \<noteq> length (cstr m2)
               then [Syslog LOG_ERR ''sctp_sendmsg failed (daytime_stream_gmt)''] else [])
            @ [Close (cw_accept w)])"
proof -
  from daytime_defined [OF len, of 1 "cw_clock_local w"] obtain m1 where
    m1: "fst (daytime (cw_message w) sizeof_message 1 (cw_clock_local w)) = Some m1"
      "length m1 = sizeof_message" "NUL \<in> set m1" by blast
  from daytime_defined [OF m1(2), of 0 "cw_clock_gmt w"] obtain m2 where
    m2: "fst (daytime m1 sizeof_message 0 (cw_clock_gmt w)) = Some m2"
      "length m2 = sizeof_message" "NUL \<in> set m2" by blast
  have c1: "length (cstr m1) < sizeof_message" using length_cstr_less [OF m1(3)] m1(2) by simp
  have c2: "length (cstr m2) < sizeof_message" using length_cstr_less [OF m2(3)] m2(2) by simp
  have s1: "strlen m1 = Some (length (cstr m1))" using m1(3) by (simp add: strlen_def)
  have s2: "strlen m2 = Some (length (cstr m2))" using m2(3) by (simp add: strlen_def)
  have "sctp_daytime listenfd w =
      Some (snd (sctp_accept listenfd w)
            @ snd (daytime (cw_message w) sizeof_message 1 (cw_clock_local w))
            @ [Sendmsg (cw_accept w) (cstr m1) DAYTIME_STREAM_LOCAL]
            @ (if size_t_of_int (cw_send_local w) \<noteq> length (cstr m1)
               then [Syslog LOG_ERR ''sctp_sendmsg failed (daytime_stream_local)''] else [])
            @ snd (daytime m1 sizeof_message 0 (cw_clock_gmt w))
            @ [Sendmsg (cw_accept w) (cstr m2) DAYTIME_STREAM_GMT]
            @ (if size_t_of_int (cw_send_gmt w) \<noteq> length (cstr m2)
               then [Syslog LOG_ERR ''sctp_sendmsg failed (daytime_stream_gmt)''] else [])
            @ [Close (cw_accept w)])"
    using acc sctp_accept_fst [of listenfd w] m1(1) m2(1)
    by (cases "sctp_accept listenfd w";
        cases "daytime (cw_message w) sizeof_message 1 (cw_clock_local w)";
        cases "daytime m1 sizeof_message 0 (cw_clock_gmt w)")
       (simp add: sctp_daytime_def s1 s2 take_cstr sctp_close_def Let_def)
  then show ?thesis using m1 m2 c1 c2 by simp
qed

lemma sctp_daytime_accept_failed:
  "cw_accept w = - 1 \<Longrightarrow>
   sctp_daytime listenfd w = Some [Syslog LOG_ERR (''accept failed: '' @ cw_strerror w)]"
  by (simp add: sctp_daytime_def sctp_accept_def)

lemma sctp_daytime_defined:
  assumes "length (cw_message w) = sizeof_message"
  shows "sctp_daytime listenfd w = Some (session_events listenfd w)"
proof (cases "cw_accept w = - 1")
  case True
  then show ?thesis by (simp add: session_events_def sctp_daytime_accept_failed)
next
  case False
  from sctp_daytime_shape [OF False assms, of listenfd]
  show ?thesis by (auto simp: session_events_def)
qed

lemma sctp_daytime_total:
  assumes "cw_accept w \<noteq> - 1 \<longrightarrow> length (cw_message w) = sizeof_message"
  shows "sctp_daytime listenfd w = Some (session_events listenfd w)"
proof (cases "cw_accept w = - 1")
  case True
  then show ?thesis by (simp add: session_events_def sctp_daytime_accept_failed)
next
  case False
  with assms show ?thesis by (simp add: sctp_daytime_defined)
qed

lemma session_shape:
  assumes acc: "cw_accept w \<noteq> - 1" and len: "length (cw_message w) = sizeof_message"
  shows "sctp_daytime listenfd w =
      Some (snd (sctp_accept listenfd w)
            @ snd (daytime (cw_message w) sizeof_message 1 (cw_clock_local w))
            @ [Sendmsg (cw_accept w) (cstr (local_buffer w)) DAYTIME_STREAM_LOCAL]
            @ (if size_t_of_int (cw_send_local w) \<noteq> length (cstr (local_buffer w))
               then [Syslog LOG_ERR ''sctp_sendmsg failed (daytime_stream_local)''] else [])
            @ snd (daytime (local_buffer w) sizeof_message 0 (cw_clock_gmt w))
            @ [Sendmsg (cw_accept w) (cstr (gmt_buffer w)) DAYTIME_STREAM_GMT]
            @ (if size_t_of_int (cw_send_gmt w) \<noteq> length (cstr (gmt_buffer w))
               then [Syslog LOG_ERR ''sctp_sendmsg failed (daytime_stream_gmt)''] else [])
            @ [Close (cw_accept w)])"
    and "fst (daytime (cw_message w) sizeof_message 1 (cw_clock_local w)) = Some (local_buffer w)"
    and "fst (daytime (local_buffer w) sizeof_message 0 (cw_clock_gmt w)) = Some (gmt_buffer w)"
    and "length (local_buffer w) = sizeof_message"
    and "length (cstr (local_buffer w)) < sizeof_message"
    and "length (cstr (gmt_buffer w)) < sizeof_message"
proof -
  from sctp_daytime_shape [OF acc len, of listenfd] obtain m1 m2 where
    m1: "fst (daytime (cw_message w) sizeof_message 1 (cw_clock_local w)) = Some m1"
    and m2: "fst (daytime m1 sizeof_message 0 (cw_clock_gmt w)) = Some m2"
    and l1: "length m1 = sizeof_message"
    and c1: "length (cstr m1) < sizeof_message" and c2: "length (cstr m2) < sizeof_message"
    and s: "sctp_daytime listenfd w =
      Some (snd (sctp_accept listenfd w)
            @ snd (daytime (cw_message w) sizeof_message 1 (cw_clock_local w))
            @ [Sendmsg (cw_accept w) (cstr m1) DAYTIME_STREAM_LOCAL]
            @ (if size_t_of_int (cw_send_local w) \<noteq> length (cstr m1)
               then [Syslog LOG_ERR ''sctp_sendmsg failed (daytime_stream_local)''] else [])
            @ snd (daytime m1 sizeof_message 0 (cw_clock_gmt w))
            @ [Sendmsg (cw_accept w) (cstr m2) DAYTIME_STREAM_GMT]
            @ (if size_t_of_int (cw_send_gmt w) \<noteq> length (cstr m2)
               then [Syslog LOG_ERR ''sctp_sendmsg failed (daytime_stream_gmt)''] else [])
            @ [Close (cw_accept w)])"
    by blast
  have e1: "local_buffer w = m1" by (simp add: local_buffer_def m1)
  have e2: "gmt_buffer w = m2" by (simp add: gmt_buffer_def e1 m2)
  show "sctp_daytime listenfd w =
      Some (snd (sctp_accept listenfd w)
            @ snd (daytime (cw_message w) sizeof_message 1 (cw_clock_local w))
            @ [Sendmsg (cw_accept w) (cstr (local_buffer w)) DAYTIME_STREAM_LOCAL]
            @ (if size_t_of_int (cw_send_local w) \<noteq> length (cstr (local_buffer w))
               then [Syslog LOG_ERR ''sctp_sendmsg failed (daytime_stream_local)''] else [])
            @ snd (daytime (local_buffer w) sizeof_message 0 (cw_clock_gmt w))
            @ [Sendmsg (cw_accept w) (cstr (gmt_buffer w)) DAYTIME_STREAM_GMT]
            @ (if size_t_of_int (cw_send_gmt w) \<noteq> length (cstr (gmt_buffer w))
               then [Syslog LOG_ERR ''sctp_sendmsg failed (daytime_stream_gmt)''] else [])
            @ [Close (cw_accept w)])"
    unfolding e1 e2 by (rule s)
  show "fst (daytime (cw_message w) sizeof_message 1 (cw_clock_local w)) = Some (local_buffer w)"
    unfolding e1 by (rule m1)
  show "fst (daytime (local_buffer w) sizeof_message 0 (cw_clock_gmt w)) = Some (gmt_buffer w)"
    unfolding e1 e2 by (rule m2)
  show "length (local_buffer w) = sizeof_message" unfolding e1 by (rule l1)
  show "length (cstr (local_buffer w)) < sizeof_message" unfolding e1 by (rule c1)
  show "length (cstr (gmt_buffer w)) < sizeof_message" unfolding e2 by (rule c2)
qed

lemma sent_messages_session:
  assumes "cw_accept w \<noteq> - 1" and "length (cw_message w) = sizeof_message"
  shows "sent_messages (session_events listenfd w) =
           [(cw_accept w, DAYTIME_STREAM_LOCAL, cstr (local_buffer w)),
            (cw_accept w, DAYTIME_STREAM_GMT, cstr (gmt_buffer w))]"
  by (simp add: session_events_def session_shape(1) [OF assms] sent_messages_append
        sctp_accept_sent daytime_sent)

lemma closed_fds_session:
  assumes "cw_accept w \<noteq> - 1" and "length (cw_message w) = sizeof_message"
  shows "closed_fds (session_events listenfd w) = [cw_accept w]"
  by (simp add: session_events_def session_shape(1) [OF assms] closed_fds_append
        sctp_accept_closed daytime_closed)

lemma last_session:
  assumes "cw_accept w \<noteq> - 1" and "length (cw_message w) = sizeof_message"
  shows "last (session_events listenfd w) = Close (cw_accept w)"
  by (simp add: session_events_def session_shape(1) [OF assms])

lemma sent_messages_bound:
  assumes "length (cw_message w) = sizeof_message"
  shows "\<forall>(fd, stream, payload) \<in> set (sent_messages (session_events listenfd w)).
           length payload < sizeof_message"
proof (cases "cw_accept w = - 1")
  case True
  then show ?thesis by (simp add: session_events_def sctp_daytime_accept_failed)
next
  case False
  show ?thesis
    using session_shape(5,6) [OF False assms]
    by (simp add: sent_messages_session [OF False assms])
qed

text \<open>A whole session, computed: the first send is complete, the second fails.\<close>

lemma example_session:
  "sctp_daytime 3 example_conn =
     Some [Syslog LOG_DEBUG ''connection from 127.0.0.1:40000'',
           Sendmsg 5 (''2024-02-29 13:05:09'' @ [CR, LF]) 0,
           Sendmsg 5 (''2024-02-29 12:05:09'' @ [CR, LF]) 1,
           Syslog LOG_ERR ''sctp_sendmsg failed (daytime_stream_gmt)'',
           Close 5]"
proof -
  have r: "tm_in_range example_tm" "tm_in_range (example_tm\<lparr>tm_hour := 12\<rparr>)"
    by (simp_all add: tm_in_range_def example_tm_def)
  have y: "1000 \<le> sint (tm_year example_tm) + 1900" "sint (tm_year example_tm) + 1900 \<le> 9999"
    by (simp_all add: example_tm_def)
  have t1: "timestamp example_tm = ''2024-02-29 13:05:09''"
    by (simp add: timestamp_def example_tm_def four_digits_def two_digits_def digit_def)
  have t2: "timestamp (example_tm\<lparr>tm_hour := 12\<rparr>) = ''2024-02-29 12:05:09''"
    by (simp add: timestamp_def example_tm_def four_digits_def two_digits_def digit_def)
  have e1: "strftime_expand daytime_format example_tm = ''2024-02-29 13:05:09'' @ [CR, LF]"
    using timestamp_expand [OF r(1) y] by (simp add: t1)
  have e2: "strftime_expand daytime_format (example_tm\<lparr>tm_hour := 12\<rparr>)
              = ''2024-02-29 12:05:09'' @ [CR, LF]"
    using timestamp_expand [OF r(2)] y by (simp add: t2)
  have a: "cw_accept example_conn \<noteq> - 1" by (simp add: example_conn_def)
  have l: "length (cw_message example_conn) = sizeof_message"
    by (simp add: example_conn_def sizeof_message_def)
  have d1: "daytime (cw_message example_conn) sizeof_message 1 (cw_clock_local example_conn)
              = (Some (store (cw_message example_conn) ((''2024-02-29 13:05:09'' @ [CR, LF]) @ [NUL])), [])"
    using daytime_formatted [of 1 "cw_clock_local example_conn" example_tm "cw_message example_conn"]
    by (simp add: example_conn_def example_clock_def e1)
  have b1: "local_buffer example_conn
              = store (cw_message example_conn) ((''2024-02-29 13:05:09'' @ [CR, LF]) @ [NUL])"
    by (simp add: local_buffer_def d1)
  have d2: "daytime (local_buffer example_conn) sizeof_message 0 (cw_clock_gmt example_conn)
              = (Some (store (local_buffer example_conn) ((''2024-02-29 12:05:09'' @ [CR, LF]) @ [NUL])), [])"
    using daytime_formatted [of 0 "cw_clock_gmt example_conn" "example_tm\<lparr>tm_hour := 12\<rparr>"
        "local_buffer example_conn"]
    by (simp add: example_conn_def example_clock_def e2)
  have b2: "gmt_buffer example_conn
              = store (local_buffer example_conn) ((''2024-02-29 12:05:09'' @ [CR, LF]) @ [NUL])"
    by (simp add: gmt_buffer_def d2)
  have c1: "cstr (local_buffer example_conn) = ''2024-02-29 13:05:09'' @ [CR, LF]"
    unfolding b1 by (rule cstr_store_NUL) simp
  have c2: "cstr (gmt_buffer example_conn) = ''2024-02-29 12:05:09'' @ [CR, LF]"
    unfolding b2 by (rule cstr_store_NUL) simp
  have s: "snd (sctp_accept 3 example_conn) = [Syslog LOG_DEBUG ''connection from 127.0.0.1:40000'']"
    by (simp add: sctp_accept_def example_conn_def)
  have v: "cw_accept example_conn = 5" "cw_send_local example_conn = 21"
    "cw_send_gmt example_conn = - 1"
    by (simp_all add: example_conn_def)
  show ?thesis
    unfolding session_shape(1) [OF a l] d1 d2 c1 c2 s v
    by (simp add: size_t_of_int_def DAYTIME_STREAM_LOCAL_def DAYTIME_STREAM_GMT_def)
qed

subsection \<open>The loop of the server\<close>

lemma serve_loop_blocked:
  assumes "tfd \<noteq> - 1"
    and "\<forall>c \<in> set ws. cw_accept c \<noteq> - 1 \<longrightarrow> length (cw_message c) = sizeof_message"
  shows "serve_loop tfd ws = Some (False, concat (map (session_events tfd) ws))"
  using assms(2)
proof (induction ws)
  case Nil
  then show ?case using assms(1) by simp
next
  case (Cons w ws)
  then show ?case using assms(1) by (simp add: sctp_daytime_total)
qed

lemma server_main_blocked:
  assumes "fst (sctp_listen port lw) \<noteq> - 1"
    and "\<forall>c \<in> set ws. cw_accept c \<noteq> - 1 \<longrightarrow> length (cw_message c) = sizeof_message"
  shows "server_main [prog, port] lw ws =
           (Blocked, Openlog progname_daytimed # snd (sctp_listen port lw)
                       @ concat (map (session_events (fst (sctp_listen port lw))) ws))"
  using serve_loop_blocked [OF assms]
  by (cases "sctp_listen port lw") (simp add: server_main_def)

lemma server_main_listen_failed:
  assumes "fst (sctp_listen port lw) = - 1"
  shows "server_main [prog, port] lw conns
           = (Exited EXIT_SUCCESS,
              Openlog progname_daytimed # snd (sctp_listen port lw) @ [Close (- 1), Closelog])"
proof -
  have "serve_loop (- 1) conns = Some (True, [])" by (cases conns) simp_all
  then show ?thesis using assms
    by (cases "sctp_listen port lw") (simp add: server_main_def sctp_close_def)
qed

lemma example_listen_fd:
  "sctp_listen ''13'' example_listen
     = (3, [Setsockopt 3 ''SO_REUSEADDR'', Freeaddrinfo, Listen 3 42])"
  by (simp add: sctp_listen_def example_listen_def Let_def)

subsection \<open>The connector of the client\<close>

lemma starts_with_append: "starts_with needle (needle @ rest)"
  by (induction needle) simp_all

lemma find_sub_self: "find_sub needle (needle @ rest) = Some 0"
  by (cases "needle @ rest") (simp_all add: starts_with_append del: starts_with.simps, metis starts_with_append)

lemma contains_append: "contains needle (before @ needle @ rest)"
proof (induction before)
  case Nil
  then show ?case by (simp add: contains_def find_sub_self)
next
  case (Cons c before)
  then show ?case by (simp add: contains_def)
qed

lemma connect_scan_exhausted:
  "\<forall>c \<in> set cs. socket_result c < 0 \<or> attach_result c \<noteq> 0 \<Longrightarrow>
   fst (connect_scan cs fd) = [] \<and> stderr_lines (snd (snd (connect_scan cs fd))) = []"
proof (induction cs arbitrary: fd)
  case Nil
  then show ?case by simp
next
  case (Cons c cs)
  have ih: "fst (connect_scan cs (socket_result c)) = [] \<and>
            stderr_lines (snd (snd (connect_scan cs (socket_result c)))) = []"
    using Cons.IH [of "socket_result c"] Cons.prems by simp
  have hd: "socket_result c < 0 \<or> attach_result c \<noteq> 0" using Cons.prems by simp
  show ?case using ih hd
    by (cases "connect_scan cs (socket_result c)") (auto simp: Let_def)
qed

subsection \<open>The receive loop of the client\<close>

text \<open>
  One turn of the loop leaves in the array the C string of the message cut at the first
  \<^verbatim>\<open>"\r\n"\<close>, and the loop does what the specification describes, message by message.
\<close>

lemma find_sub_crlf_None: "find_sub [CR, LF] s = None \<Longrightarrow> trim_crlf s = s"
  by (induction s rule: trim_crlf.induct) (auto split: if_splits)

lemma find_sub_crlf_Some:
  "find_sub [CR, LF] s = Some i \<Longrightarrow> trim_crlf s = take i s \<and> i < length s"
  by (induction s arbitrary: i rule: trim_crlf.induct) (auto split: if_splits)

lemma trim_crlf_cstr: "trim_crlf (cstr s) = cstr (trim_crlf s)"
  by (induction s rule: trim_crlf.induct) (auto simp: cstr_def)

lemma find_sub_crlf_cstr:
  assumes "find_sub [CR, LF] rd = None"
  shows "find_sub [CR, LF] (cstr rd) = None"
proof (cases "find_sub [CR, LF] (cstr rd)")
  case None then show ?thesis .
next
  case (Some i)
  from find_sub_crlf_Some [OF Some]
  have "trim_crlf (cstr rd) = take i (cstr rd)" "i < length (cstr rd)" by simp_all
  moreover have "trim_crlf (cstr rd) = cstr rd"
    using find_sub_crlf_None [OF assms] by (simp add: trim_crlf_cstr)
  ultimately have "length (cstr rd) = i" by (metis length_take min.absorb2 less_imp_le)
  with \<open>i < length (cstr rd)\<close> show ?thesis by simp
qed

lemma trim_crlf_terminated:
  "find_sub [CR, LF] s = None \<Longrightarrow> trim_crlf (s @ [CR, LF]) = s"
  by (induction s rule: trim_crlf.induct) (auto split: if_splits)

lemma length_trim_crlf: "length (trim_crlf s) \<le> length s"
  by (induction s rule: trim_crlf.induct) simp_all

lemma length_take_message: "length (take (sizeof_message - 1) bs) < sizeof_message"
  by (simp add: sizeof_message_def)

lemma sctp_recvmsg_Message:
  "rd = take len bs \<Longrightarrow>
   sctp_recvmsg message len st (Message bs s) = (int (length rd), store message rd, s)"
  by (simp add: sctp_recvmsg_def)

lemma show_message_stored:
  assumes len: "length message = sizeof_message"
    and rd: "length rd < sizeof_message"
  shows "case show_message host serv (store message rd) (length rd) s of
           None \<Rightarrow> False
         | Some (message2, evs) \<Rightarrow>
             evs = message_events host serv s rd \<and>
             length message2 = sizeof_message \<and> cstr message2 = cstr (trim_crlf rd) \<and>
             (find_sub [CR, LF] rd = None \<longrightarrow>
                message2 = rd @ NUL # drop (Suc (length rd)) message)"
proof -
  define b where "b = (store message rd)[length rd := NUL]"
  have lt: "length rd < length message" using len rd by simp
  have b: "b = rd @ NUL # drop (Suc (length rd)) message"
    unfolding b_def using lt by (rule store_update_NUL)
  have lb: "length b = sizeof_message"
    unfolding b_def using lt len by (simp add: length_store)
  have cb: "cstr b = cstr rd" unfolding b by (rule cstr_append_NUL_gen)
  have inb: "length rd < length (store message rd)" using lt by (simp add: length_store)
  define m2 where "m2 = (case strstr b [CR, LF] of Some i \<Rightarrow> b[i := NUL] | None \<Rightarrow> b)"
  have c2: "cstr m2 = cstr (trim_crlf rd)"
  proof (cases "find_sub [CR, LF] (cstr rd)")
    case None
    then have "m2 = b" by (simp add: m2_def strstr_def cb)
    then show ?thesis using find_sub_crlf_None [OF None] cb by (simp add: trim_crlf_cstr)
  next
    case (Some i)
    from find_sub_crlf_Some [OF Some]
    have t: "trim_crlf (cstr rd) = take i (cstr rd)" and i: "i < length (cstr rd)" by simp_all
    have "m2 = b[i := NUL]" using Some by (simp add: m2_def strstr_def cb)
    then have "cstr m2 = take i (cstr b)" using i cb by (simp add: cstr_update_NUL)
    then show ?thesis using t cb by (simp add: trim_crlf_cstr)
  qed
  have l2: "length m2 = sizeof_message"
    using lb by (simp add: m2_def split: option.splits)
  have n2: "find_sub [CR, LF] rd = None \<longrightarrow> m2 = rd @ NUL # drop (Suc (length rd)) message"
  proof
    assume "find_sub [CR, LF] rd = None"
    then have "strstr b [CR, LF] = None"
      using find_sub_crlf_cstr [of rd] by (simp add: strstr_def cb)
    then show "m2 = rd @ NUL # drop (Suc (length rd)) message"
      using b by (simp add: m2_def)
  qed
  have "show_message host serv (store message rd) (length rd) s
          = Some (m2, message_events host serv s rd)"
    using inb c2
    by (simp add: show_message_def message_events_def Let_def b_def [symmetric] m2_def [symmetric]
          progname_daytime_def)
  then show ?thesis using l2 c2 n2 by simp
qed

lemma recv_loop_refines:
  assumes "length message = sizeof_message"
  shows "recv_loop fd host serv message st rs =
           Some (length (received rs) < length rs,
                 concat (map (\<lambda>(rd, s). Recvmsg fd (sizeof_message - 1) # message_events host serv s rd)
                          (received rs))
                   @ [Recvmsg fd (sizeof_message - 1)])"
  using assms
proof (induction rs arbitrary: message st)
  case Nil
  then show ?case by simp
next
  case (Cons r rs)
  show ?case
  proof (cases r)
    case (Message bs s)
    define rd where "rd = take (sizeof_message - 1) bs"
    have rdl: "length rd < sizeof_message" by (simp add: rd_def sizeof_message_def)
    note step = sctp_recvmsg_Message [OF rd_def, of message st s]
    have rcv: "received (Message bs s # rs) = (if rd = [] then [] else (rd, s) # received rs)"
      by (simp add: rd_def del: One_nat_def)
    show ?thesis
    proof (cases "rd = []")
      case True
      then show ?thesis unfolding Message rcv
        by (simp add: step del: One_nat_def)
    next
      case False
      from show_message_stored [OF Cons.prems rdl, of host serv s] obtain m2 where
        m2: "show_message host serv (store message rd) (length rd) s
               = Some (m2, message_events host serv s rd)"
            "length m2 = sizeof_message"
        by (cases "show_message host serv (store message rd) (length rd) s") auto
      show ?thesis unfolding Message rcv using False m2(1) Cons.IH [OF m2(2), of s]
        by (simp add: step del: One_nat_def)
    qed
  next
    case Shutdown
    then show ?thesis by (simp add: sctp_recvmsg_def)
  next
    case Failed
    then show ?thesis by (simp add: sctp_recvmsg_def)
  qed
qed

lemma received_example:
  "received [Message (''2024-02-29 13:05:09'' @ [CR, LF]) 0,
             Message (''2024-02-29 12:05:09'' @ [CR, LF]) 1,
             Message ''hello'' 5, Shutdown, Message ''late'' 0]
   = [(''2024-02-29 13:05:09'' @ [CR, LF], 0), (''2024-02-29 12:05:09'' @ [CR, LF], 1),
      (''hello'', 5)]"
  by (simp add: sizeof_message_def)

section \<open>The claims\<close>

text \<open>
  C1 says that a failed \<^verbatim>\<open>sctp_listen\<close> ends the server with a non-zero exit status. The
  code does otherwise: when the port does not resolve, \<^verbatim>\<open>sctp_listen\<close> returns -1, the
  loop is skipped, \<^verbatim>\<open>sctp_close(-1)\<close> is called and \<^verbatim>\<open>main\<close> returns
  \<^verbatim>\<open>EXIT_SUCCESS\<close>, that is 0, even with a connection waiting. (Lemma
  \<open>server_main_listen_failed\<close> has the same for every start in which \<^verbatim>\<open>sctp_listen\<close>
  returns -1.)
\<close>

theorem server_exit_status_after_listen_failure:
  "sctp_listen ''nosuchservice'' unresolved_listen
     = (- 1, [Stderr (''daytimed: getaddrinfo failed: Servname not supported for ai_socktype''
                       @ [LF])]) \<and>
   server_main [''daytimed'', ''nosuchservice''] unresolved_listen [example_conn]
     = (Exited 0,
        [Openlog ''daytimed'',
         Stderr (''daytimed: getaddrinfo failed: Servname not supported for ai_socktype'' @ [LF]),
         Close (- 1), Closelog])"
  by (simp add: server_main_def sctp_listen_def unresolved_listen_def progname_daytimed_def
        sctp_close_def EXIT_SUCCESS_def)

text \<open>
  C2, amended. In the client's receive phase a failure of \<^verbatim>\<open>getpeername\<close> or of
  \<^verbatim>\<open>getnameinfo\<close> ends the phase: one diagnostic is printed and \<^verbatim>\<open>daytime\<close> returns.
  The stream metadata is not enabled (no \<^verbatim>\<open>setsockopt\<close>) and the receive loop is not
  entered (no \<^verbatim>\<open>sctp_recvmsg\<close>).
\<close>

theorem lookup_failure_ends_receive_phase:
  assumes "pw_getpeername w \<noteq> 0 \<or> pw_getnameinfo w \<noteq> 0"
  shows "client_daytime fd w =
           Some (True,
                 [Stderr (''daytime'' @
                          (if pw_getpeername w \<noteq> 0 then '': getpeername: '' @ pw_strerror w
                           else '': getnameinfo: '' @ pw_gai_strerror w) @ [LF])])"
  using assms by (auto simp: client_daytime_def progname_daytime_def)

theorem lookup_failure_ends_receive_phase_witness:
  "pw_getpeername nameless_peer \<noteq> 0 \<and>
   client_daytime 3 nameless_peer =
           Some (True,
                 [Stderr (''daytime'' @
                          (if pw_getpeername nameless_peer \<noteq> 0
                           then '': getpeername: '' @ pw_strerror nameless_peer
                           else '': getnameinfo: '' @ pw_gai_strerror nameless_peer) @ [LF])])"
proof -
  have h: "pw_getpeername nameless_peer \<noteq> 0" by (simp add: nameless_peer_def)
  then have "pw_getpeername nameless_peer \<noteq> 0 \<or> pw_getnameinfo nameless_peer \<noteq> 0" ..
  from h lookup_failure_ends_receive_phase [OF this, of 3] show ?thesis by (rule conjI)
qed

text \<open>
  C2 as stated fails: with two messages and the end of the association waiting on the
  socket, a failed \<^verbatim>\<open>getpeername\<close> leaves one diagnostic as the only event of the receive
  phase.
\<close>

theorem lookup_failure_counterexample:
  "pw_recv nameless_peer
     = [Message (''2024-02-29 13:05:09'' @ [CR, LF]) 0,
        Message (''2024-02-29 12:05:09'' @ [CR, LF]) 1, Shutdown] \<and>
   client_daytime 3 nameless_peer
     = Some (True, [Stderr (''daytime: getpeername: Transport endpoint is not connected'' @ [LF])]) \<and>
   Setsockopt 3 ''SCTP_EVENTS''
     \<notin> set [Stderr (''daytime: getpeername: Transport endpoint is not connected'' @ [LF])] \<and>
   Recvmsg 3 127
     \<notin> set [Stderr (''daytime: getpeername: Transport endpoint is not connected'' @ [LF])]"
  by (simp add: client_daytime_def nameless_peer_def example_peer_def progname_daytime_def)

text \<open>
  C3, amended. If the client's name resolution fails, or if every resolved candidate fails
  (no socket, or \<^verbatim>\<open>connect\<close> refused), \<^verbatim>\<open>sctp_connect\<close> ends the process with
  \<^verbatim>\<open>EXIT_FAILURE\<close>, which is not 0, after one line on the error channel. When every
  candidate failed that line names the host and the port given; when the resolution
  failed it is \<^verbatim>\<open>daytime: getaddrinfo: \<close> followed by the resolver's own message.
\<close>

theorem sctp_connect_failure_exits:
  assumes "xw_getaddrinfo w \<noteq> 0 \<or>
           (\<forall>c \<in> set (xw_ai_list w). socket_result c < 0 \<or> attach_result c \<noteq> 0)"
  shows "(case sctp_connect host port w of
            (Return fd, evs) \<Rightarrow> False
          | (Exit code, evs) \<Rightarrow>
              code = EXIT_FAILURE \<and> code \<noteq> 0 \<and>
              (if xw_getaddrinfo w \<noteq> 0 then
                 stderr_lines evs = [''daytime: getaddrinfo: '' @ xw_gai_strerror w @ [LF]]
               else
                 stderr_lines evs
                   = [''daytime: socket or connect: failed for '' @ host @ '' port '' @ port @ [LF]]
                 \<and> contains host (hd (stderr_lines evs))
                 \<and> contains port (hd (stderr_lines evs)))) \<and>
         fst (client_main [prog, host, port] w pw) = Exited EXIT_FAILURE"
proof (cases "xw_getaddrinfo w \<noteq> 0")
  case True
  then show ?thesis
    by (simp add: sctp_connect_def client_main_def EXIT_FAILURE_def progname_daytime_def)
next
  case False
  with assms have "\<forall>c \<in> set (xw_ai_list w). socket_result c < 0 \<or> attach_result c \<noteq> 0"
    by simp
  from connect_scan_exhausted [OF this, of 0]
  have s: "fst (connect_scan (xw_ai_list w) 0) = []"
    "stderr_lines (snd (snd (connect_scan (xw_ai_list w) 0))) = []" by simp_all
  have c1: "contains host (''daytime: socket or connect: failed for '' @ host @ '' port '' @ port @ [LF])"
    by (rule contains_append)
  have c2: "contains port ((''daytime: socket or connect: failed for '' @ host @ '' port '') @ port @ [LF])"
    by (rule contains_append)
  show ?thesis using False s c1 c2
    by (cases "connect_scan (xw_ai_list w) 0")
       (simp add: sctp_connect_def client_main_def EXIT_FAILURE_def progname_daytime_def
          stderr_lines_append)
qed

theorem sctp_connect_failure_exits_witness:
  "(case sctp_connect ''localhost'' ''13'' refused_connect of
            (Return fd, evs) \<Rightarrow> False
          | (Exit code, evs) \<Rightarrow>
              code = EXIT_FAILURE \<and> code \<noteq> 0 \<and>
              (if xw_getaddrinfo refused_connect \<noteq> 0 then
                 stderr_lines evs = [''daytime: getaddrinfo: '' @ xw_gai_strerror refused_connect @ [LF]]
               else
                 stderr_lines evs
                   = [''daytime: socket or connect: failed for '' @ ''localhost'' @ '' port '' @ ''13'' @ [LF]]
                 \<and> contains ''localhost'' (hd (stderr_lines evs))
                 \<and> contains ''13'' (hd (stderr_lines evs)))) \<and>
         fst (client_main [''daytime'', ''localhost'', ''13''] refused_connect example_peer)
           = Exited EXIT_FAILURE"
proof -
  have "xw_getaddrinfo refused_connect \<noteq> 0 \<or>
           (\<forall>c \<in> set (xw_ai_list refused_connect). socket_result c < 0 \<or> attach_result c \<noteq> 0)"
    by (simp add: refused_connect_def)
  from sctp_connect_failure_exits [OF this] show ?thesis .
qed

text \<open>
  C3 as stated fails for the resolution failure: the message printed there has neither
  the host nor the port in it.
\<close>

theorem getaddrinfo_message_counterexample:
  "sctp_connect ''nohost'' ''13'' unresolved_connect
     = (Exit 1, [Stderr (''daytime: getaddrinfo: Name or service not known'' @ [LF])]) \<and>
   \<not> contains ''nohost'' (''daytime: getaddrinfo: Name or service not known'' @ [LF]) \<and>
   \<not> contains ''13'' (''daytime: getaddrinfo: Name or service not known'' @ [LF])"
  by (simp add: sctp_connect_def unresolved_connect_def EXIT_FAILURE_def progname_daytime_def
        contains_def)

text \<open>
  C4. For every received message (each call of \<^verbatim>\<open>sctp_recvmsg\<close> that returns more than 0,
  in order, up to the first call that does not), the client cuts the message at the first
  \<^verbatim>\<open>"\r\n"\<close> and then: on stream 0 it prints one line on standard output labelled
  \<^verbatim>\<open>(local time)\<close>, on stream 1 one labelled \<^verbatim>\<open>(gmt time)\<close>, and on any other stream it
  writes a diagnostic to the error channel and nothing to standard output. These and the
  calls of \<^verbatim>\<open>sctp_recvmsg\<close> are all the loop does.
\<close>

theorem recv_loop_labels_every_message:
  assumes "length message = sizeof_message"
  shows "recv_loop fd host serv message st rs =
           Some (length (received rs) < length rs,
                 concat (map (\<lambda>(rd, s).
                           Recvmsg fd (sizeof_message - 1) #
                           (if s = 0 then
                              [Stdout (host @ '':'' @ serv @ [TAB] @ '' '' @ cstr (trim_crlf rd)
                                         @ '' (local time)'' @ [LF])]
                            else if s = 1 then
                              [Stdout (host @ '':'' @ serv @ [TAB] @ '' '' @ cstr (trim_crlf rd)
                                         @ '' (gmt time)'' @ [LF])]
                            else
                              [Stderr (''daytime: ignoring message from unknown stream ''
                                         @ dec_int (uint s) @ [LF])]))
                        (received rs))
                   @ [Recvmsg fd (sizeof_message - 1)])"
proof -
  have "(\<lambda>(rd, s). Recvmsg fd (sizeof_message - 1) # message_events host serv s rd)
        = (\<lambda>(rd, s).
                           Recvmsg fd (sizeof_message - 1) #
                           (if s = 0 then
                              [Stdout (host @ '':'' @ serv @ [TAB] @ '' '' @ cstr (trim_crlf rd)
                                         @ '' (local time)'' @ [LF])]
                            else if s = 1 then
                              [Stdout (host @ '':'' @ serv @ [TAB] @ '' '' @ cstr (trim_crlf rd)
                                         @ '' (gmt time)'' @ [LF])]
                            else
                              [Stderr (''daytime: ignoring message from unknown stream ''
                                         @ dec_int (uint s) @ [LF])]))"
    by (simp add: message_events_def Let_def fun_eq_iff)
  then show ?thesis using recv_loop_refines [OF assms, of fd host serv st rs] by simp
qed

theorem recv_loop_labels_every_message_witness:
  "recv_loop 3 ''127.0.0.1'' ''13'' (replicate 128 (CHR ''x'')) 7
     [Message (''2024-02-29 13:05:09'' @ [CR, LF]) 0,
      Message (''2024-02-29 12:05:09'' @ [CR, LF]) 1,
      Message ''hello'' 5, Shutdown, Message ''late'' 0]
   = Some (True,
       [Recvmsg 3 127,
        Stdout (''127.0.0.1:13'' @ [TAB] @ '' 2024-02-29 13:05:09 (local time)'' @ [LF]),
        Recvmsg 3 127,
        Stdout (''127.0.0.1:13'' @ [TAB] @ '' 2024-02-29 12:05:09 (gmt time)'' @ [LF]),
        Recvmsg 3 127,
        Stderr (''daytime: ignoring message from unknown stream 5'' @ [LF]),
        Recvmsg 3 127])"
proof -
  have l: "length (replicate 128 (CHR ''x'')) = sizeof_message" by (simp add: sizeof_message_def)
  have d: "dec_int 5 = ''5''"
    by (simp add: dec_int_def dec_nat.simps digit_def)
  show ?thesis
    unfolding recv_loop_labels_every_message [OF l] received_example
    by (simp add: cstr_def d sizeof_message_def)
qed

text \<open>
  C5. On every path after a successful \<^verbatim>\<open>accept\<close>, the session handler closes the client
  association exactly once: there is one \<^verbatim>\<open>close\<close>, of the accepted descriptor, and it is
  the last thing the handler does, after the send on stream 0 and the send on stream 1.
  Whatever the two sends return, both happen; a count that differs from the length of the
  message is logged (and only then), and nothing else changes.
\<close>

theorem sctp_daytime_closes_once:
  assumes "cw_accept w \<noteq> - 1" and "length (cw_message w) = sizeof_message"
  shows "case sctp_daytime listenfd w of
           None \<Rightarrow> False
         | Some evs \<Rightarrow>
             closed_fds evs = [cw_accept w] \<and> last evs = Close (cw_accept w) \<and>
             (case sent_messages evs of
                [(fd1, stream1, payload1), (fd2, stream2, payload2)] \<Rightarrow>
                  fd1 = cw_accept w \<and> stream1 = DAYTIME_STREAM_LOCAL \<and>
                  fd2 = cw_accept w \<and> stream2 = DAYTIME_STREAM_GMT \<and>
                  (Syslog LOG_ERR ''sctp_sendmsg failed (daytime_stream_local)'' \<in> set evs
                     \<longleftrightarrow> size_t_of_int (cw_send_local w) \<noteq> length payload1) \<and>
                  (Syslog LOG_ERR ''sctp_sendmsg failed (daytime_stream_gmt)'' \<in> set evs
                     \<longleftrightarrow> size_t_of_int (cw_send_gmt w) \<noteq> length payload2)
              | _ \<Rightarrow> False)"
proof -
  from sctp_daytime_shape [OF assms, of listenfd] obtain m1 m2 where
    s: "sctp_daytime listenfd w =
      Some (snd (sctp_accept listenfd w)
            @ snd (daytime (cw_message w) sizeof_message 1 (cw_clock_local w))
            @ [Sendmsg (cw_accept w) (cstr m1) DAYTIME_STREAM_LOCAL]
            @ (if size_t_of_int (cw_send_local w) \<noteq> length (cstr m1)
               then [Syslog LOG_ERR ''sctp_sendmsg failed (daytime_stream_local)''] else [])
            @ snd (daytime m1 sizeof_message 0 (cw_clock_gmt w))
            @ [Sendmsg (cw_accept w) (cstr m2) DAYTIME_STREAM_GMT]
            @ (if size_t_of_int (cw_send_gmt w) \<noteq> length (cstr m2)
               then [Syslog LOG_ERR ''sctp_sendmsg failed (daytime_stream_gmt)''] else [])
            @ [Close (cw_accept w)])"
    by blast
  show ?thesis
    unfolding s
    by (simp add: closed_fds_append sent_messages_append sctp_accept_closed sctp_accept_sent
          daytime_closed daytime_sent accept_log_not_send_failure daytime_log_not_send_failure)
qed

theorem sctp_daytime_closes_once_witness:
  "cw_accept example_conn \<noteq> - 1 \<and> length (cw_message example_conn) = sizeof_message \<and>
   (case sctp_daytime 3 example_conn of
           None \<Rightarrow> False
         | Some evs \<Rightarrow>
             closed_fds evs = [cw_accept example_conn] \<and> last evs = Close (cw_accept example_conn) \<and>
             (case sent_messages evs of
                [(fd1, stream1, payload1), (fd2, stream2, payload2)] \<Rightarrow>
                  fd1 = cw_accept example_conn \<and> stream1 = DAYTIME_STREAM_LOCAL \<and>
                  fd2 = cw_accept example_conn \<and> stream2 = DAYTIME_STREAM_GMT \<and>
                  (Syslog LOG_ERR ''sctp_sendmsg failed (daytime_stream_local)'' \<in> set evs
                     \<longleftrightarrow> size_t_of_int (cw_send_local example_conn) \<noteq> length payload1) \<and>
                  (Syslog LOG_ERR ''sctp_sendmsg failed (daytime_stream_gmt)'' \<in> set evs
                     \<longleftrightarrow> size_t_of_int (cw_send_gmt example_conn) \<noteq> length payload2)
              | _ \<Rightarrow> False))"
proof -
  have a: "cw_accept example_conn \<noteq> - 1" by (simp add: example_conn_def)
  have l: "length (cw_message example_conn) = sizeof_message"
    by (simp add: example_conn_def sizeof_message_def)
  from a l sctp_daytime_closes_once [OF a l, of 3] show ?thesis by (intro conjI)
qed

text \<open>
  C6. The formatter never fails: when the breakdown (\<^verbatim>\<open>localtime\<close> or \<^verbatim>\<open>gmtime\<close>, by
  the flag) returns NULL it leaves the empty string in the buffer and logs one error. The
  session handler then still runs to its end: it logs that error, sends the empty message
  on the stream concerned, and closes the accepted association, once, as its last action.
  With the handler's 128-byte array the formatter's result is defined in every case,
  whether the breakdown succeeds or not.
\<close>

theorem daytime_failure_is_soft:
  "((if local \<noteq> 0 then localtime ck (time_now ck) else gmtime ck (time_now ck)) = None \<and>
    0 < length buffer \<longrightarrow>
      (case daytime buffer sz local ck of
         (None, evs) \<Rightarrow> False
       | (Some b, evs) \<Rightarrow> cstr b = [] \<and> evs = [Syslog LOG_ERR ''localtime or gmtime failed''])) \<and>
   (cw_accept w \<noteq> - 1 \<and> length (cw_message w) = sizeof_message \<and>
    (localtime (cw_clock_local w) (time_now (cw_clock_local w)) = None \<or>
     gmtime (cw_clock_gmt w) (time_now (cw_clock_gmt w)) = None) \<longrightarrow>
      (case sctp_daytime listenfd w of
         None \<Rightarrow> False
       | Some evs \<Rightarrow>
           Syslog LOG_ERR ''localtime or gmtime failed'' \<in> set evs \<and>
           closed_fds evs = [cw_accept w] \<and> last evs = Close (cw_accept w) \<and>
           (localtime (cw_clock_local w) (time_now (cw_clock_local w)) = None \<longrightarrow>
              (cw_accept w, DAYTIME_STREAM_LOCAL, []) \<in> set (sent_messages evs)) \<and>
           (gmtime (cw_clock_gmt w) (time_now (cw_clock_gmt w)) = None \<longrightarrow>
              (cw_accept w, DAYTIME_STREAM_GMT, []) \<in> set (sent_messages evs)))) \<and>
   (length array = sizeof_message \<longrightarrow>
      fst (daytime array sizeof_message flag ck') \<noteq> None)"
proof (intro conjI impI)
  assume "length array = sizeof_message"
  from daytime_defined [OF this, of flag ck']
  show "fst (daytime array sizeof_message flag ck') \<noteq> None" by auto
next
  assume "(if local \<noteq> 0 then localtime ck (time_now ck) else gmtime ck (time_now ck)) = None \<and>
    0 < length buffer"
  then show "case daytime buffer sz local ck of
         (None, evs) \<Rightarrow> False
       | (Some b, evs) \<Rightarrow> cstr b = [] \<and> evs = [Syslog LOG_ERR ''localtime or gmtime failed'']"
    by (simp add: daytime_failed cstr_update_0)
next
  assume h: "cw_accept w \<noteq> - 1 \<and> length (cw_message w) = sizeof_message \<and>
    (localtime (cw_clock_local w) (time_now (cw_clock_local w)) = None \<or>
     gmtime (cw_clock_gmt w) (time_now (cw_clock_gmt w)) = None)"
  then have acc: "cw_accept w \<noteq> - 1" and len: "length (cw_message w) = sizeof_message"
    by simp_all
  note sh = session_shape [OF acc len]
  have p0: "0 < length (cw_message w)" "0 < length (local_buffer w)"
    using len sh(4) by (simp_all add: sizeof_message_def)
  have f1: "cstr (local_buffer w) = []"
     "snd (daytime (cw_message w) sizeof_message 1 (cw_clock_local w))
              = [Syslog LOG_ERR ''localtime or gmtime failed'']"
    if "localtime (cw_clock_local w) (time_now (cw_clock_local w)) = None"
    using daytime_failed_buffer [of 1 "cw_clock_local w" "cw_message w" sizeof_message, OF _ sh(2) p0(1)]
      that by simp_all
  have f2: "cstr (gmt_buffer w) = []"
     "snd (daytime (local_buffer w) sizeof_message 0 (cw_clock_gmt w))
              = [Syslog LOG_ERR ''localtime or gmtime failed'']"
    if "gmtime (cw_clock_gmt w) (time_now (cw_clock_gmt w)) = None"
    using daytime_failed_buffer [of 0 "cw_clock_gmt w" "local_buffer w" sizeof_message, OF _ sh(3) p0(2)]
      that by simp_all
  have d: "sctp_daytime listenfd w = Some (session_events listenfd w)"
    using len by (rule sctp_daytime_defined)
  have log: "Syslog LOG_ERR ''localtime or gmtime failed'' \<in> set (session_events listenfd w)"
  proof -
    from h consider "localtime (cw_clock_local w) (time_now (cw_clock_local w)) = None"
      | "gmtime (cw_clock_gmt w) (time_now (cw_clock_gmt w)) = None" by auto
    then show ?thesis
    proof cases
      case 1
      then show ?thesis by (simp add: session_events_def sh(1) f1(2))
    next
      case 2
      then show ?thesis by (simp add: session_events_def sh(1) f2(2))
    qed
  qed
  show "case sctp_daytime listenfd w of
         None \<Rightarrow> False
       | Some evs \<Rightarrow>
           Syslog LOG_ERR ''localtime or gmtime failed'' \<in> set evs \<and>
           closed_fds evs = [cw_accept w] \<and> last evs = Close (cw_accept w) \<and>
           (localtime (cw_clock_local w) (time_now (cw_clock_local w)) = None \<longrightarrow>
              (cw_accept w, DAYTIME_STREAM_LOCAL, []) \<in> set (sent_messages evs)) \<and>
           (gmtime (cw_clock_gmt w) (time_now (cw_clock_gmt w)) = None \<longrightarrow>
              (cw_accept w, DAYTIME_STREAM_GMT, []) \<in> set (sent_messages evs))"
    using log f1(1) f2(1)
    by (simp add: d closed_fds_session [OF acc len] last_session [OF acc len]
          sent_messages_session [OF acc len])
qed

theorem daytime_failure_is_soft_witness:
  "((if (1::int) \<noteq> 0 then localtime broken_clock (time_now broken_clock)
     else gmtime broken_clock (time_now broken_clock)) = None \<and>
    0 < length (replicate 128 (CHR ''x''))) \<and>
   (cw_accept clockless_conn \<noteq> - 1 \<and> length (cw_message clockless_conn) = sizeof_message \<and>
    (localtime (cw_clock_local clockless_conn) (time_now (cw_clock_local clockless_conn)) = None \<or>
     gmtime (cw_clock_gmt clockless_conn) (time_now (cw_clock_gmt clockless_conn)) = None)) \<and>
   length (replicate 128 (CHR ''x'')) = sizeof_message \<and>
   (case daytime (replicate 128 (CHR ''x'')) sizeof_message 1 broken_clock of
      (None, evs) \<Rightarrow> False
    | (Some b, evs) \<Rightarrow> cstr b = [] \<and> evs = [Syslog LOG_ERR ''localtime or gmtime failed'']) \<and>
   (case sctp_daytime 3 clockless_conn of
      None \<Rightarrow> False
    | Some evs \<Rightarrow>
        Syslog LOG_ERR ''localtime or gmtime failed'' \<in> set evs \<and>
        closed_fds evs = [cw_accept clockless_conn] \<and>
        last evs = Close (cw_accept clockless_conn) \<and>
        (localtime (cw_clock_local clockless_conn) (time_now (cw_clock_local clockless_conn)) = None
           \<longrightarrow> (cw_accept clockless_conn, DAYTIME_STREAM_LOCAL, []) \<in> set (sent_messages evs)) \<and>
        (gmtime (cw_clock_gmt clockless_conn) (time_now (cw_clock_gmt clockless_conn)) = None
           \<longrightarrow> (cw_accept clockless_conn, DAYTIME_STREAM_GMT, []) \<in> set (sent_messages evs))) \<and>
   fst (daytime (replicate 128 (CHR ''x'')) sizeof_message 0 example_clock) \<noteq> None"
proof -
  have h1: "(if (1::int) \<noteq> 0 then localtime broken_clock (time_now broken_clock)
     else gmtime broken_clock (time_now broken_clock)) = None \<and>
    0 < length (replicate 128 (CHR ''x''))"
    by (simp add: broken_clock_def)
  have h2: "cw_accept clockless_conn \<noteq> - 1 \<and> length (cw_message clockless_conn) = sizeof_message \<and>
    (localtime (cw_clock_local clockless_conn) (time_now (cw_clock_local clockless_conn)) = None \<or>
     gmtime (cw_clock_gmt clockless_conn) (time_now (cw_clock_gmt clockless_conn)) = None)"
    by (simp add: clockless_conn_def example_conn_def broken_clock_def sizeof_message_def)
  have h3: "length (replicate 128 (CHR ''x'')) = sizeof_message" by (simp add: sizeof_message_def)
  note t = daytime_failure_is_soft [where local = 1 and ck = broken_clock
      and buffer = "replicate 128 (CHR ''x'')" and sz = sizeof_message and w = clockless_conn
      and listenfd = 3 and array = "replicate 128 (CHR ''x'')" and flag = 0
      and ck' = example_clock]
  note c1 = mp [OF conjunct1 [OF t] h1]
  note c2 = mp [OF conjunct1 [OF conjunct2 [OF t]] h2]
  note c3 = mp [OF conjunct2 [OF conjunct2 [OF t]] h3]
  show ?thesis
    by (rule conjI [OF h1 conjI [OF h2 conjI [OF h3 conjI [OF c1 conjI [OF c2 c3]]]]])
qed

text \<open>
  C7, amended. For every time value whose breakdown succeeds with the fields in their
  calendar ranges and a year from 1000 to 9999, the formatter called with a size of at
  least 22 bytes (the server passes 128) leaves in the buffer exactly \<^verbatim>\<open>YYYY-MM-DD HH:MM:SS\<close> followed by \<^verbatim>\<open>"\r\n"\<close> (the expansion of the
  pattern \<^verbatim>\<open>"%F %T\r\n"\<close>), written from the breakdown by \<^verbatim>\<open>localtime\<close> when the flag
  \<open>local\<close> is set and by \<^verbatim>\<open>gmtime\<close> otherwise, and logs nothing.
\<close>

theorem daytime_fixed_format:
  assumes "(if local \<noteq> 0 then localtime ck (time_now ck) else gmtime ck (time_now ck)) = Some t"
    and "tm_in_range t"
    and "1000 \<le> sint (tm_year t) + 1900" and "sint (tm_year t) + 1900 \<le> 9999"
    and "22 \<le> sz"
  shows "case daytime buffer sz local ck of
           (None, evs) \<Rightarrow> False
         | (Some b, evs) \<Rightarrow>
             evs = [] \<and> cstr b = timestamp t @ [CR, LF] \<and>
             matches_template ''YYYY-MM-DD HH:MM:SS'' (timestamp t)"
proof -
  have e: "strftime_expand daytime_format t = timestamp t @ [CR, LF]"
    using assms(2-4) by (rule timestamp_expand)
  have "length (strftime_expand daytime_format t) < sz"
    using assms(5) by (simp add: e length_timestamp)
  note f = daytime_formatted_sz [OF assms(1) this]
  have "cstr (store buffer ((timestamp t @ [CR, LF]) @ [NUL])) = timestamp t @ [CR, LF]"
    using timestamp_no_NUL [OF assms(2-4)] by (rule cstr_store_NUL)
  then show ?thesis
    using timestamp_template [OF assms(2-4)]
    by (simp add: f e)
qed

theorem daytime_fixed_format_witness:
  "(if (1::int) \<noteq> 0 then localtime example_clock (time_now example_clock)
    else gmtime example_clock (time_now example_clock)) = Some example_tm \<and>
   tm_in_range example_tm \<and>
   1000 \<le> sint (tm_year example_tm) + 1900 \<and> sint (tm_year example_tm) + 1900 \<le> 9999 \<and>
   22 \<le> sizeof_message \<and>
   (case daytime (replicate 128 NUL) sizeof_message 1 example_clock of
           (None, evs) \<Rightarrow> False
         | (Some b, evs) \<Rightarrow>
             evs = [] \<and> cstr b = timestamp example_tm @ [CR, LF] \<and>
             matches_template ''YYYY-MM-DD HH:MM:SS'' (timestamp example_tm)) \<and>
   timestamp example_tm = ''2024-02-29 13:05:09''"
proof -
  have a: "(if (1::int) \<noteq> 0 then localtime example_clock (time_now example_clock)
    else gmtime example_clock (time_now example_clock)) = Some example_tm"
    by (simp add: example_clock_def)
  have b: "tm_in_range example_tm" by (simp add: tm_in_range_def example_tm_def)
  have c: "1000 \<le> sint (tm_year example_tm) + 1900" by (simp add: example_tm_def)
  have d: "sint (tm_year example_tm) + 1900 \<le> 9999" by (simp add: example_tm_def)
  have s: "22 \<le> sizeof_message" by (simp add: sizeof_message_def)
  have e: "timestamp example_tm = ''2024-02-29 13:05:09''"
    by (simp add: timestamp_def example_tm_def four_digits_def two_digits_def digit_def)
  from a b c d s daytime_fixed_format [OF a b c d s, of "replicate 128 NUL"] e
  show ?thesis by (intro conjI)
qed

text \<open>
  C7 as stated fails outside that range of years: at the first second of the year 10000
  the breakdown succeeds and the formatter writes a five-digit year, which is not of the
  form \<^verbatim>\<open>YYYY-MM-DD HH:MM:SS\<close>.
\<close>

theorem daytime_year_10000_counterexample:
  "gmtime clock_10000 (time_now clock_10000)
     = Some \<lparr>tm_sec = 0, tm_min = 0, tm_hour = 0, tm_mday = 1, tm_mon = 0, tm_year = 8100\<rparr> \<and>
   map_option cstr (fst (daytime (replicate 128 NUL) sizeof_message 0 clock_10000))
     = Some (''10000-01-01 00:00:00'' @ [CR, LF]) \<and>
   \<not> matches_template ''YYYY-MM-DD HH:MM:SS'' ''10000-01-01 00:00:00''"
proof -
  have g: "gmtime clock_10000 (time_now clock_10000)
     = Some \<lparr>tm_sec = 0, tm_min = 0, tm_hour = 0, tm_mday = 1, tm_mon = 0, tm_year = 8100\<rparr>"
    by (simp add: clock_10000_def)
  have e: "strftime_expand daytime_format
             \<lparr>tm_sec = 0, tm_min = 0, tm_hour = 0, tm_mday = 1, tm_mon = 0, tm_year = 8100\<rparr>
           = ''10000-01-01 00:00:00'' @ [CR, LF]"
    by (simp add: expand_daytime_format dec_int_10000 dec2_small)
  have "(if (0::int) \<noteq> 0 then localtime clock_10000 (time_now clock_10000)
         else gmtime clock_10000 (time_now clock_10000))
        = Some \<lparr>tm_sec = 0, tm_min = 0, tm_hour = 0, tm_mday = 1, tm_mon = 0, tm_year = 8100\<rparr>"
    using g by simp
  note f = daytime_formatted [OF this, of "replicate 128 NUL"]
  have c: "cstr (store (replicate 128 NUL) ((''10000-01-01 00:00:00'' @ [CR, LF]) @ [NUL]))
             = ''10000-01-01 00:00:00'' @ [CR, LF]"
    by (rule cstr_store_NUL) simp
  have "map_option cstr (fst (daytime (replicate 128 NUL) sizeof_message 0 clock_10000))
     = Some (''10000-01-01 00:00:00'' @ [CR, LF])"
    using c by (simp add: f e)
  moreover have "\<not> matches_template ''YYYY-MM-DD HH:MM:SS'' ''10000-01-01 00:00:00''"
    by (simp add: is_digit_def)
  ultimately show ?thesis using g by (intro conjI)
qed

text \<open>
  C8. No message handled on either side exceeds 127 bytes. Server: the handler, whose
  array has 128 bytes, is always defined and every payload it sends has at most 127 bytes.
  Client: \<^verbatim>\<open>sizeof(message) - 1\<close> is 127; each call of \<^verbatim>\<open>sctp_recvmsg\<close> returns at most
  127, so that the terminating NUL is stored inside the array (the loop is never
  undefined), and the text left in the array has at most 127 bytes.
\<close>

theorem message_bodies_at_most_127:
  "(length (cw_message w) = sizeof_message \<longrightarrow>
      (case sctp_daytime listenfd w of
         None \<Rightarrow> False
       | Some evs \<Rightarrow> \<forall>(fd, stream, payload) \<in> set (sent_messages evs). length payload \<le> 127)) \<and>
   (length message = sizeof_message \<longrightarrow>
      sizeof_message - 1 = 127 \<and>
      recv_loop cfd host serv message st rs \<noteq> None \<and>
      (case sctp_recvmsg message (sizeof_message - 1) st r of
         (n, message1, st1) \<Rightarrow>
           n \<le> 127 \<and> length message1 = sizeof_message \<and>
           (0 < n \<longrightarrow>
              (case show_message host serv message1 (nat n) st1 of
                 None \<Rightarrow> False
               | Some (message2, evs) \<Rightarrow>
                   length message2 = sizeof_message \<and> length (cstr message2) \<le> 127))))"
proof (intro conjI impI)
  assume len: "length (cw_message w) = sizeof_message"
  have "\<forall>(fd, stream, payload) \<in> set (sent_messages (session_events listenfd w)).
          length payload \<le> 127"
    using sent_messages_bound [OF len, of listenfd] by (auto simp: sizeof_message_def)
  then show "case sctp_daytime listenfd w of
         None \<Rightarrow> False
       | Some evs \<Rightarrow> \<forall>(fd, stream, payload) \<in> set (sent_messages evs). length payload \<le> 127"
    by (simp add: sctp_daytime_defined [OF len])
next
  assume "length message = sizeof_message"
  show "sizeof_message - 1 = 127" by (simp add: sizeof_message_def)
next
  assume len: "length message = sizeof_message"
  show "recv_loop cfd host serv message st rs \<noteq> None"
    by (simp add: recv_loop_refines [OF len])
next
  assume len: "length message = sizeof_message"
  show "case sctp_recvmsg message (sizeof_message - 1) st r of
         (n, message1, st1) \<Rightarrow>
           n \<le> 127 \<and> length message1 = sizeof_message \<and>
           (0 < n \<longrightarrow>
              (case show_message host serv message1 (nat n) st1 of
                 None \<Rightarrow> False
               | Some (message2, evs) \<Rightarrow>
                   length message2 = sizeof_message \<and> length (cstr message2) \<le> 127))"
  proof (cases r)
    case (Message bs s)
    define rd where "rd = take (sizeof_message - 1) bs"
    have rdl: "length rd < sizeof_message" unfolding rd_def by (rule length_take_message)
    note step = sctp_recvmsg_Message [OF rd_def, of message st s]
    have ls: "length (store message rd) = sizeof_message"
      using rdl len by (simp add: length_store)
    have "length (cstr (trim_crlf rd)) \<le> length rd"
      using length_cstr_le [of "trim_crlf rd"] length_trim_crlf [of rd] by simp
    then have b: "length (cstr (trim_crlf rd)) \<le> 127"
      using rdl by (simp add: sizeof_message_def)
    show ?thesis
      unfolding Message step
      using show_message_stored [OF len rdl, of host serv s] rdl ls b
      by (cases "show_message host serv (store message rd) (length rd) s")
         (auto simp: sizeof_message_def)
  next
    case Shutdown
    then show ?thesis using len by (simp add: sctp_recvmsg_def)
  next
    case Failed
    then show ?thesis using len by (simp add: sctp_recvmsg_def)
  qed
qed

theorem message_bodies_at_most_127_witness:
  "length (cw_message example_conn) = sizeof_message \<and>
   map_option (\<lambda>evs. length (sent_messages evs)) (sctp_daytime 3 example_conn) = Some 2 \<and>
   (case sctp_daytime 3 example_conn of
         None \<Rightarrow> False
       | Some evs \<Rightarrow> \<forall>(fd, stream, payload) \<in> set (sent_messages evs). length payload \<le> 127) \<and>
   (sizeof_message - 1 = 127 \<and>
      recv_loop 3 ''127.0.0.1'' ''13'' (replicate 128 (CHR ''x'')) 7 (pw_recv example_peer) \<noteq> None \<and>
      (case sctp_recvmsg (replicate 128 (CHR ''x'')) (sizeof_message - 1) 7
              (Message (''2024-02-29 13:05:09'' @ [CR, LF]) 0) of
         (n, message1, st1) \<Rightarrow>
           n \<le> 127 \<and> length message1 = sizeof_message \<and>
           (0 < n \<longrightarrow>
              (case show_message ''127.0.0.1'' ''13'' message1 (nat n) st1 of
                 None \<Rightarrow> False
               | Some (message2, evs) \<Rightarrow>
                   length message2 = sizeof_message \<and> length (cstr message2) \<le> 127))))"
proof -
  have h1: "length (cw_message example_conn) = sizeof_message"
    by (simp add: example_conn_def sizeof_message_def)
  have h2: "length (replicate 128 (CHR ''x'')) = sizeof_message" by (simp add: sizeof_message_def)
  have a: "cw_accept example_conn \<noteq> - 1" by (simp add: example_conn_def)
  have n: "map_option (\<lambda>evs. length (sent_messages evs)) (sctp_daytime 3 example_conn) = Some 2"
    by (simp add: sctp_daytime_defined [OF h1] sent_messages_session [OF a h1])
  note t = message_bodies_at_most_127 [where w = example_conn and listenfd = 3
      and message = "replicate 128 (CHR ''x'')" and cfd = 3 and host = "''127.0.0.1''"
      and serv = "''13''" and st = 7 and rs = "pw_recv example_peer"
      and r = "Message (''2024-02-29 13:05:09'' @ [CR, LF]) 0"]
  note c1 = mp [OF conjunct1 [OF t] h1]
  note c2 = mp [OF conjunct2 [OF t] h2]
  show ?thesis by (rule conjI [OF h1 conjI [OF n conjI [OF c1 c2]]])
qed

text \<open>
  C9. A failure of \<^verbatim>\<open>accept\<close> is not fatal: \<^verbatim>\<open>sctp_accept\<close> logs the error and returns -1,
  the handler returns with nothing sent and nothing closed, and the server started on a
  listening socket is still in its loop afterwards, whatever came before and whatever comes
  after: the connections that follow the failed one are served as usual.
\<close>

theorem accept_failure_not_fatal:
  assumes "cw_accept w = - 1"
    and "fst (sctp_listen port lw) \<noteq> - 1"
    and "\<forall>c \<in> set (before @ after). cw_accept c \<noteq> - 1 \<longrightarrow> length (cw_message c) = sizeof_message"
  shows "sctp_accept (fst (sctp_listen port lw)) w
           = (- 1, [Syslog LOG_ERR (''accept failed: '' @ cw_strerror w)]) \<and>
         sctp_daytime (fst (sctp_listen port lw)) w
           = Some [Syslog LOG_ERR (''accept failed: '' @ cw_strerror w)] \<and>
         server_main [prog, port] lw (before @ w # after)
           = (Blocked,
              snd (server_main [prog, port] lw before)
                @ Syslog LOG_ERR (''accept failed: '' @ cw_strerror w)
                # concat (map (session_events (fst (sctp_listen port lw))) after))"
proof (intro conjI)
  show "sctp_accept (fst (sctp_listen port lw)) w
           = (- 1, [Syslog LOG_ERR (''accept failed: '' @ cw_strerror w)])"
    using assms(1) by (simp add: sctp_accept_def)
  show d: "sctp_daytime (fst (sctp_listen port lw)) w
           = Some [Syslog LOG_ERR (''accept failed: '' @ cw_strerror w)]"
    using assms(1) by (rule sctp_daytime_accept_failed)
  have b: "\<forall>c \<in> set before. cw_accept c \<noteq> - 1 \<longrightarrow> length (cw_message c) = sizeof_message"
    using assms(3) by simp
  have a: "\<forall>c \<in> set (before @ w # after).
             cw_accept c \<noteq> - 1 \<longrightarrow> length (cw_message c) = sizeof_message"
    using assms(1,3) by auto
  have e: "session_events (fst (sctp_listen port lw)) w
             = [Syslog LOG_ERR (''accept failed: '' @ cw_strerror w)]"
    by (simp add: session_events_def d)
  show "server_main [prog, port] lw (before @ w # after)
           = (Blocked,
              snd (server_main [prog, port] lw before)
                @ Syslog LOG_ERR (''accept failed: '' @ cw_strerror w)
                # concat (map (session_events (fst (sctp_listen port lw))) after))"
    by (simp add: server_main_blocked [OF assms(2) a] server_main_blocked [OF assms(2) b] e)
qed

theorem accept_failure_not_fatal_witness:
  "cw_accept refused_conn = - 1 \<and>
   fst (sctp_listen ''13'' example_listen) \<noteq> - 1 \<and>
   length (cw_message example_conn) = sizeof_message \<and>
   sctp_accept (fst (sctp_listen ''13'' example_listen)) refused_conn
     = (- 1, [Syslog LOG_ERR (''accept failed: '' @ cw_strerror refused_conn)]) \<and>
   sctp_daytime (fst (sctp_listen ''13'' example_listen)) refused_conn
     = Some [Syslog LOG_ERR (''accept failed: '' @ cw_strerror refused_conn)] \<and>
   server_main [''daytimed'', ''13''] example_listen ([example_conn] @ refused_conn # [example_conn])
     = (Blocked,
        snd (server_main [''daytimed'', ''13''] example_listen [example_conn])
          @ Syslog LOG_ERR (''accept failed: '' @ cw_strerror refused_conn)
          # concat (map (session_events (fst (sctp_listen ''13'' example_listen))) [example_conn]))"
proof -
  have h1: "cw_accept refused_conn = - 1" by (simp add: refused_conn_def)
  have h2: "fst (sctp_listen ''13'' example_listen) \<noteq> - 1" by (simp add: example_listen_fd)
  have h3: "\<forall>c \<in> set ([example_conn] @ [example_conn]).
      cw_accept c \<noteq> - 1 \<longrightarrow> length (cw_message c) = sizeof_message"
    by (simp add: example_conn_def sizeof_message_def)
  have h4: "length (cw_message example_conn) = sizeof_message"
    by (simp add: example_conn_def sizeof_message_def)
  note t = accept_failure_not_fatal [OF h1 h2 h3, of "''daytimed''"]
  show ?thesis by (rule conjI [OF h1 conjI [OF h2 conjI [OF h4 t]]])
qed

text \<open>
  C10, amended. If the \<open>n\<close> bytes read of a message contain no \<^verbatim>\<open>"\r\n"\<close>, the message is
  handled exactly as the same message followed by \<^verbatim>\<open>"\r\n"\<close> would be: the array holds the
  \<open>n\<close> bytes unchanged with a NUL after them, and
  \<^item> on stream 0 or 1 the message is printed un-trimmed on standard output with the label of
    its stream; what is printed is the C string, that is the bytes before the first NUL:
    the message in full when it contains no NUL byte;
  \<^item> on any other stream the message is not printed: the only event is the diagnostic
    \<^verbatim>\<open>ignoring message from unknown stream\<close> on the error channel.
\<close>

theorem unterminated_message_printed:
  assumes "length message = sizeof_message"
    and "rd = take (sizeof_message - 1) bs" and "rd \<noteq> []"
    and "\<not> contains [CR, LF] rd"
  shows "case sctp_recvmsg message (sizeof_message - 1) st (Message bs s) of
           (n, message1, s1) \<Rightarrow>
             0 < n \<and> nat n = length rd \<and> s1 = s \<and>
             (case show_message host serv message1 (nat n) s1 of
                None \<Rightarrow> False
              | Some (message2, evs) \<Rightarrow>
                  message2 = rd @ NUL # drop (Suc (length rd)) message \<and>
                  evs = (if s = 0 then
                           [Stdout (host @ '':'' @ serv @ [TAB] @ '' '' @ cstr rd
                                      @ '' (local time)'' @ [LF])]
                         else if s = 1 then
                           [Stdout (host @ '':'' @ serv @ [TAB] @ '' '' @ cstr rd
                                      @ '' (gmt time)'' @ [LF])]
                         else
                           [Stderr (''daytime: ignoring message from unknown stream ''
                                      @ dec_int (uint s) @ [LF])]) \<and>
                  evs = message_events host serv s (rd @ [CR, LF]) \<and>
                  (NUL \<notin> set rd \<longrightarrow> cstr rd = rd))"
proof -
  have none: "find_sub [CR, LF] rd = None" using assms(4) by (simp add: contains_def)
  have rdl: "length rd < sizeof_message" unfolding assms(2) by (rule length_take_message)
  note step = sctp_recvmsg_Message [OF assms(2), of message st s]
  have t: "trim_crlf rd = rd" using none by (rule find_sub_crlf_None)
  have t': "trim_crlf (rd @ [CR, LF]) = rd" using none by (rule trim_crlf_terminated)
  have e: "message_events host serv s (rd @ [CR, LF]) = message_events host serv s rd"
    by (simp only: message_events_def t t')
  have c: "NUL \<notin> set rd \<longrightarrow> cstr rd = rd" by (simp add: cstr_no_NUL)
  from show_message_stored [OF assms(1) rdl, of host serv s] none
  obtain message2 evs where
    sm: "show_message host serv (store message rd) (length rd) s = Some (message2, evs)"
    and ev: "evs = message_events host serv s rd"
    and m: "message2 = rd @ NUL # drop (Suc (length rd)) message"
    by (cases "show_message host serv (store message rd) (length rd) s") auto
  have ev1: "evs = (if s = 0 then
                           [Stdout (host @ '':'' @ serv @ [TAB] @ '' '' @ cstr rd
                                      @ '' (local time)'' @ [LF])]
                         else if s = 1 then
                           [Stdout (host @ '':'' @ serv @ [TAB] @ '' '' @ cstr rd
                                      @ '' (gmt time)'' @ [LF])]
                         else
                           [Stderr (''daytime: ignoring message from unknown stream ''
                                      @ dec_int (uint s) @ [LF])])"
    unfolding ev by (simp add: message_events_def t Let_def)
  have ev2: "evs = message_events host serv s (rd @ [CR, LF])"
    unfolding ev e ..
  show ?thesis
    unfolding step using assms(3) m ev1 ev2 c by (simp add: sm)
qed

theorem unterminated_message_printed_witness:
  "\<not> contains [CR, LF] ''hello'' \<and>
   (case sctp_recvmsg (replicate 128 (CHR ''x'')) (sizeof_message - 1) 7 (Message ''hello'' 1) of
           (n, message1, s1) \<Rightarrow>
             0 < n \<and> nat n = length ''hello'' \<and> s1 = 1 \<and>
             (case show_message ''127.0.0.1'' ''13'' message1 (nat n) s1 of
                None \<Rightarrow> False
              | Some (message2, evs) \<Rightarrow>
                  message2 = ''hello'' @ NUL # drop (Suc (length ''hello'')) (replicate 128 (CHR ''x'')) \<and>
                  evs = (if (1 :: 16 word) = 0 then
                           [Stdout (''127.0.0.1'' @ '':'' @ ''13'' @ [TAB] @ '' '' @ cstr ''hello''
                                      @ '' (local time)'' @ [LF])]
                         else if (1 :: 16 word) = 1 then
                           [Stdout (''127.0.0.1'' @ '':'' @ ''13'' @ [TAB] @ '' '' @ cstr ''hello''
                                      @ '' (gmt time)'' @ [LF])]
                         else
                           [Stderr (''daytime: ignoring message from unknown stream ''
                                      @ dec_int (uint (1 :: 16 word)) @ [LF])]) \<and>
                  evs = message_events ''127.0.0.1'' ''13'' 1 (''hello'' @ [CR, LF]) \<and>
                  (NUL \<notin> set ''hello'' \<longrightarrow> cstr ''hello'' = ''hello'')))"
proof -
  have l: "length (replicate 128 (CHR ''x'')) = sizeof_message" by (simp add: sizeof_message_def)
  have r: "''hello'' = take (sizeof_message - 1) ''hello''" by (simp add: sizeof_message_def)
  have n: "''hello'' \<noteq> []" by simp
  have c: "\<not> contains [CR, LF] ''hello''" by (simp add: contains_def)
  from c unterminated_message_printed [OF l r n c, where st = 7 and s = 1
      and host = "''127.0.0.1''" and serv = "''13''"]
  show ?thesis by (rule conjI)
qed

text \<open>
  C10 as stated fails in two ways. A message with a NUL byte in it is not printed in full:
  the three bytes \<^verbatim>\<open>a\<close>, NUL, \<^verbatim>\<open>b\<close> contain no \<^verbatim>\<open>"\r\n"\<close>, and on stream 0 only \<^verbatim>\<open>a\<close> is
  printed. A message on a stream other than 0 and 1 is not printed at all: \<^verbatim>\<open>hello\<close> on
  stream 5 contains no \<^verbatim>\<open>"\r\n"\<close>, and the loop writes the diagnostic to the error channel
  and nothing to standard output.
\<close>

theorem unterminated_message_counterexample:
  "\<not> contains [CR, LF] [CHR ''a'', NUL, CHR ''b''] \<and>
   recv_loop 3 ''127.0.0.1'' ''13'' (replicate 128 (CHR ''x'')) 7
     [Message [CHR ''a'', NUL, CHR ''b''] 0, Shutdown]
   = Some (True,
       [Recvmsg 3 127,
        Stdout (''127.0.0.1:13'' @ [TAB] @ '' a (local time)'' @ [LF]),
        Recvmsg 3 127]) \<and>
   \<not> contains [CR, LF] ''hello'' \<and>
   recv_loop 3 ''127.0.0.1'' ''13'' (replicate 128 (CHR ''x'')) 7 [Message ''hello'' 5, Shutdown]
   = Some (True,
       [Recvmsg 3 127,
        Stderr (''daytime: ignoring message from unknown stream 5'' @ [LF]),
        Recvmsg 3 127])"
proof -
  have l: "length (replicate 128 (CHR ''x'')) = sizeof_message" by (simp add: sizeof_message_def)
  have c: "\<not> contains [CR, LF] [CHR ''a'', NUL, CHR ''b'']" by (simp add: contains_def)
  have r: "received [Message [CHR ''a'', NUL, CHR ''b''] 0, Shutdown]
             = [([CHR ''a'', NUL, CHR ''b''], 0)]"
    by (simp add: sizeof_message_def)
  have a: "recv_loop 3 ''127.0.0.1'' ''13'' (replicate 128 (CHR ''x'')) 7
     [Message [CHR ''a'', NUL, CHR ''b''] 0, Shutdown]
   = Some (True,
       [Recvmsg 3 127,
        Stdout (''127.0.0.1:13'' @ [TAB] @ '' a (local time)'' @ [LF]),
        Recvmsg 3 127])"
    unfolding recv_loop_refines [OF l] r
    by (simp add: message_events_def cstr_def sizeof_message_def)
  have c': "\<not> contains [CR, LF] ''hello''" by (simp add: contains_def)
  have r': "received [Message ''hello'' 5, Shutdown] = [(''hello'', 5)]"
    by (simp add: sizeof_message_def)
  have d: "dec_int 5 = ''5''"
    by (simp add: dec_int_def dec_nat.simps digit_def)
  have b: "recv_loop 3 ''127.0.0.1'' ''13'' (replicate 128 (CHR ''x'')) 7
     [Message ''hello'' 5, Shutdown]
   = Some (True,
       [Recvmsg 3 127,
        Stderr (''daytime: ignoring message from unknown stream 5'' @ [LF]),
        Recvmsg 3 127])"
    unfolding recv_loop_refines [OF l] r'
    by (simp add: message_events_def d sizeof_message_def)
  show ?thesis by (rule conjI [OF c conjI [OF a conjI [OF c' b]]])
qed

end
